theory Spec2Isabelle
  imports Main "HOL-Library.Multiset"
begin

section \<open>The user-management server (backend/server.js)\<close>

text \<open>
  The server is an Express application in front of one PostgreSQL table \<open>users\<close> and a
  socket.io hub. Each request handler is modelled as a function from the request and the
  server state to a response and the new state. The state holds the rows of the table,
  the sequence that numbers new rows, and the log of the events handed to \<open>io.emit\<close>.

  The store is an in-memory table: a statement fails when PostgreSQL rejects the value
  of a parameter or when the row violates a constraint of the table. Loss of the
  database connection is outside the model, so the \<open>catch\<close> branch of a handler is a
  branch of its model, reachable only through an error value of a statement.

  The libraries \<open>bcryptjs\<close> and \<open>jsonwebtoken\<close> and the integer input of PostgreSQL
  are not code of the repository: the handlers take them as a parameter (\<open>libs\<close>) and
  every result below holds for each implementation of them.
\<close>

subsection \<open>Data model\<close>

text \<open>
  Modelled from the spec: the declaration of the table \<open>users\<close> is not in the sources.
  The statements of server.js name its columns (\<open>id\<close>, \<open>name\<close>, \<open>email\<close>,
  \<open>password\<close>, \<open>status\<close>, \<open>last_login\<close>); the spec gives \<open>id\<close> as unique and
  server-assigned, here a number drawn from a sequence, and \<open>email\<close> as carrying a
  unique constraint. \<open>status\<close> is text, compared by the code with the literal
  \<open>"blocked"\<close>.
\<close>

record user =
  user_id :: nat
  name :: string
  email :: string
  password :: string
  status :: string
  last_login :: nat

record state =
  users :: "user list"
  next_id :: nat
  emitted :: "string list"

text \<open>The payload of a token, \<open>{ id: user.id, email: user.email }\<close>, which
  \<open>jwt.verify\<close> hands back as \<open>req.user\<close>.\<close>

record payload =
  pid :: nat
  pemail :: string

text \<open>An error thrown by \<open>pool.query\<close>, with its \<open>code\<close>.\<close>

datatype pg_error = Pg_error string

fun error_code :: "pg_error \<Rightarrow> string" where
  "error_code (Pg_error c) = c"

text \<open>
  The library functions the handlers call.
  \<^item> \<open>bcrypt_hash password rounds salt\<close>: \<open>bcrypt.hash(password, rounds)\<close>; the salt the
    library draws at random is an input.
  \<^item> \<open>bcrypt_compare password hash\<close>: \<open>bcrypt.compare(password, hash)\<close>.
  \<^item> \<open>jwt_sign payload secret expiresIn now\<close>: \<open>jwt.sign(payload, secret, {expiresIn})\<close>
    at time \<open>now\<close>.
  \<^item> \<open>jwt_verify token secret now\<close>: \<open>jwt.verify(token, secret, callback)\<close>; \<open>None\<close> is
    the callback's \<open>err\<close> (bad signature, malformed or expired token), \<open>Some\<close> its
    decoded payload.
  \<^item> \<open>pg_integer text\<close>: what PostgreSQL makes of a parameter that a statement compares
    with the column \<open>id\<close>. The driver sends the parameter as text; \<open>Inr\<close> is the
    integer read from it, \<open>Inl\<close> the error thrown when the text is not an integer or
    is out of the range of the column (as for \<open>abc\<close> and \<open>2147483648\<close>). The syntax
    accepted differs between versions of PostgreSQL.
\<close>

record libs =
  bcrypt_hash :: "string \<Rightarrow> nat \<Rightarrow> string \<Rightarrow> string"
  bcrypt_compare :: "string \<Rightarrow> string \<Rightarrow> bool"
  jwt_sign :: "payload \<Rightarrow> string \<Rightarrow> string \<Rightarrow> nat \<Rightarrow> string"
  jwt_verify :: "string \<Rightarrow> string \<Rightarrow> nat \<Rightarrow> payload option"
  pg_integer :: "string \<Rightarrow> pg_error + int"

text \<open>What a request reads from outside the program: the environment variable
  \<open>JWT_SECRET\<close>, the clock behind \<open>NOW()\<close> and token expiry, and the salt drawn by
  \<open>bcrypt.hash\<close>.\<close>

record env =
  JWT_SECRET :: "string option"
  NOW :: nat
  SALT :: string

datatype http_method = GET | POST | PUT | DELETE | OPTIONS

text \<open>
  The request path: \<open>/api/register\<close>, \<open>/api/login\<close>, \<open>/api/users\<close>,
  \<open>/api/users/block/:id\<close>, \<open>/api/users/unblock/:id\<close>, the two paths the client's
  delete action requests (\<open>/api/users/delete/:id\<close> and \<open>/api/users/:id\<close>), and any
  other path. The path parameter \<open>:id\<close> is the text of the last segment, as Express
  hands it to the handler in \<open>req.params.id\<close>; Express matches a segment that is not
  empty.
\<close>

datatype url =
  Api_register
| Api_login
| Api_users
| Api_users_block string
| Api_users_unblock string
| Api_users_delete string
| Api_users_id string
| Other_path string

text \<open>A request: method, path, the \<open>Authorization\<close> header and the three fields the
  handlers read from the JSON body (\<open>None\<close> when the field is absent).\<close>

record request =
  rmethod :: http_method
  rurl :: url
  authorization :: "string option"
  body_name :: "string option"
  body_email :: "string option"
  body_password :: "string option"

text \<open>A value of a result row, and a row of \<open>res.json({ users: rows })\<close> as the list of
  its keys and values.\<close>

datatype jsvalue = Num nat | Str string

type_synonym jsrow = "(string \<times> jsvalue) list"

datatype body =
  Error string
| Message string
| Message_token string string
| Users "jsrow list"
| No_content
| Cannot_route

record response =
  code :: nat
  rbody :: body

subsection \<open>Statements on the table\<close>

text \<open>\<open>SELECT status FROM users WHERE id = $1\<close> (the rows are kept whole; the caller
  reads \<open>status\<close> only).\<close>

definition select_by_id :: "nat \<Rightarrow> state \<Rightarrow> pg_error + user list" where
  "select_by_id i st = Inr (filter (\<lambda>u. user_id u = i) (users st))"

text \<open>\<open>SELECT * FROM users WHERE email = $1\<close>\<close>

definition select_by_email :: "string \<Rightarrow> state \<Rightarrow> pg_error + user list" where
  "select_by_email e st = Inr (filter (\<lambda>u. email u = e) (users st))"

text \<open>A text parameter that PostgreSQL accepts: it holds no zero byte.\<close>

definition pg_text :: "string \<Rightarrow> bool" where
  "pg_text s \<longleftrightarrow> CHR 0x00 \<notin> set s"

text \<open>
  \<open>INSERT INTO users (name, email, password, status, last_login)
  VALUES ($1, $2, $3, 'active', NOW())\<close>: the result of the statement and the state
  after it.
  \<^item> A parameter with a zero byte is refused with error 22021 when the parameters are
    bound, before the statement runs: the state is unchanged.
  \<^item> Otherwise the statement runs and draws the next id of the sequence. The unique
    constraint on \<open>email\<close> raises error 23505: no row is added, and the id drawn is
    lost.
  \<^item> Otherwise the row is added under the id drawn.

  The length limits of the columns, if there are any, are not known and not modelled.
\<close>

definition insert_user ::
  "string \<Rightarrow> string \<Rightarrow> string \<Rightarrow> nat \<Rightarrow> state \<Rightarrow> (pg_error + unit) \<times> state" where
  "insert_user n e h now st =
     (if \<not> (pg_text n \<and> pg_text e \<and> pg_text h) then (Inl (Pg_error ''22021''), st)
      else if \<exists>u \<in> set (users st). email u = e
      then (Inl (Pg_error ''23505''), st\<lparr>next_id := Suc (next_id st)\<rparr>)
      else (Inr (),
            st\<lparr>users := users st @
                  [\<lparr>user_id = next_id st, name = n, email = e, password = h,
                    status = ''active'', last_login = now\<rparr>],
               next_id := Suc (next_id st)\<rparr>))"

text \<open>\<open>UPDATE users SET last_login = NOW() WHERE id = $1\<close>\<close>

definition update_last_login :: "nat \<Rightarrow> nat \<Rightarrow> state \<Rightarrow> pg_error + state" where
  "update_last_login i now st =
     Inr (st\<lparr>users := map (\<lambda>u. if user_id u = i then u\<lparr>last_login := now\<rparr> else u) (users st)\<rparr>)"

text \<open>
  \<open>UPDATE users SET status = $v WHERE id = $1 RETURNING *\<close>, where \<open>$1\<close> is the text
  of the path parameter: the error thrown when PostgreSQL does not read an integer from
  the text, otherwise the new state and \<open>rowCount\<close>.
\<close>

definition update_status ::
  "libs \<Rightarrow> string \<Rightarrow> string \<Rightarrow> state \<Rightarrow> pg_error + (state \<times> nat)" where
  "update_status L v i st =
     (case pg_integer L i of
        Inl err \<Rightarrow> Inl err
      | Inr k \<Rightarrow>
          Inr (st\<lparr>users := map (\<lambda>u. if int (user_id u) = k then u\<lparr>status := v\<rparr> else u)
                               (users st)\<rparr>,
               length (filter (\<lambda>u. int (user_id u) = k) (users st))))"

text \<open>\<open>SELECT id, name, email, last_login, status FROM users ORDER BY last_login DESC\<close>\<close>

definition public_row :: "user \<Rightarrow> jsrow" where
  "public_row u =
     [(''id'', Num (user_id u)), (''name'', Str (name u)), (''email'', Str (email u)),
      (''last_login'', Num (last_login u)), (''status'', Str (status u))]"

definition select_all_users :: "state \<Rightarrow> pg_error + jsrow list" where
  "select_all_users st = Inr (map public_row (rev (sort_key last_login (users st))))"

subsection \<open>Middleware\<close>

text \<open>\<open>process.env.JWT_SECRET || "your_secret_key"\<close>\<close>

definition secret :: "env \<Rightarrow> string" where
  "secret ev = (case JWT_SECRET ev of None \<Rightarrow> ''your_secret_key''
                | Some k \<Rightarrow> if k = [] then ''your_secret_key'' else k)"

definition startsWith :: "string \<Rightarrow> string \<Rightarrow> bool" where
  "startsWith s p = (take (length p) s = p)"

text \<open>\<open>s.split(c)\<close> for a one-character separator.\<close>

fun split :: "string \<Rightarrow> char \<Rightarrow> string list" where
  "split [] c = [[]]"
| "split (x # xs) c =
     (if x = c then [] # split xs c
      else (case split xs c of p # ps \<Rightarrow> (x # p) # ps | [] \<Rightarrow> [[x]]))"

text \<open>\<open>parts[i]\<close>, \<open>None\<close> for \<open>undefined\<close>.\<close>

fun index :: "'a list \<Rightarrow> nat \<Rightarrow> 'a option" where
  "index [] i = None"
| "index (x # xs) 0 = Some x"
| "index (x # xs) (Suc i) = index xs i"

text \<open>\<open>authenticateToken\<close>: \<open>Inl\<close> is the response that ends the request, \<open>Inr\<close> the
  verified payload stored in \<open>req.user\<close> before \<open>next()\<close>.\<close>

definition authenticateToken :: "libs \<Rightarrow> env \<Rightarrow> request \<Rightarrow> response + payload" where
  "authenticateToken L ev req =
     (case authorization req of
        None \<Rightarrow> Inl \<lparr>code = 401, rbody = Error ''Access denied. No token provided.''\<rparr>
      | Some authHeader \<Rightarrow>
          if authHeader = [] \<or> \<not> startsWith authHeader ''Bearer ''
          then Inl \<lparr>code = 401, rbody = Error ''Access denied. No token provided.''\<rparr>
          else (case index (split authHeader CHR '' '') 1 of
                  None \<Rightarrow> Inl \<lparr>code = 403, rbody = Error ''Invalid token.''\<rparr>
                | Some token \<Rightarrow>
                    (case jwt_verify L token (secret ev) (NOW ev) of
                       None \<Rightarrow> Inl \<lparr>code = 403, rbody = Error ''Invalid token.''\<rparr>
                     | Some u \<Rightarrow> Inr u)))"

text \<open>\<open>checkIfBlocked\<close>: \<open>Inl\<close> is the response that ends the request, \<open>Inr ()\<close> is
  \<open>next()\<close>.\<close>

definition checkIfBlocked :: "state \<Rightarrow> payload \<Rightarrow> response + unit" where
  "checkIfBlocked st u =
     (case select_by_id (pid u) st of
        Inl err \<Rightarrow> Inl \<lparr>code = 500, rbody = Error ''Server error.''\<rparr>
      | Inr rows \<Rightarrow>
          (case rows of
             [] \<Rightarrow> Inl \<lparr>code = 404, rbody = Error ''User not found.''\<rparr>
           | r # _ \<Rightarrow>
               if status r = ''blocked''
               then Inl \<lparr>code = 403, rbody = Error ''You are blocked. Action not allowed.''\<rparr>
               else Inr ()))"

subsection \<open>Route handlers\<close>

text \<open>\<open>!v\<close> for a body field: the field is absent or the empty string.\<close>

definition falsy :: "string option \<Rightarrow> bool" where
  "falsy v = (case v of None \<Rightarrow> True | Some s \<Rightarrow> s = [])"

text \<open>\<open>POST /api/register\<close>\<close>

definition register :: "libs \<Rightarrow> env \<Rightarrow> request \<Rightarrow> state \<Rightarrow> response \<times> state" where
  "register L ev req st =
     (case (body_name req, body_email req, body_password req) of
        (Some n, Some e, Some pw) \<Rightarrow>
          if n = [] \<or> e = [] \<or> pw = []
          then (\<lparr>code = 400, rbody = Error ''All fields are required.''\<rparr>, st)
          else (let hashedPassword = bcrypt_hash L pw 10 (SALT ev) in
                case insert_user n e hashedPassword (NOW ev) st of
                  (Inr _, st') \<Rightarrow>
                    (\<lparr>code = 201, rbody = Message ''User registered successfully!''\<rparr>, st')
                | (Inl err, st') \<Rightarrow>
                    if error_code err = ''23505''
                    then (\<lparr>code = 409, rbody = Error ''Email already exists.''\<rparr>, st')
                    else (\<lparr>code = 500, rbody = Error ''Could not register user.''\<rparr>, st'))
      | _ \<Rightarrow> (\<lparr>code = 400, rbody = Error ''All fields are required.''\<rparr>, st))"

text \<open>\<open>POST /api/login\<close>\<close>

definition login :: "libs \<Rightarrow> env \<Rightarrow> request \<Rightarrow> state \<Rightarrow> response \<times> state" where
  "login L ev req st =
     (case (body_email req, body_password req) of
        (Some e, Some pw) \<Rightarrow>
          if e = [] \<or> pw = []
          then (\<lparr>code = 400, rbody = Error ''Email and password are required.''\<rparr>, st)
          else
            (case select_by_email e st of
               Inl err \<Rightarrow> (\<lparr>code = 500, rbody = Error ''Login failed.''\<rparr>, st)
             | Inr rows \<Rightarrow>
                 (case rows of
                    [] \<Rightarrow> (\<lparr>code = 401, rbody = Error ''Invalid email or password.''\<rparr>, st)
                  | u # _ \<Rightarrow>
                      if status u = ''blocked''
                      then (\<lparr>code = 403, rbody = Error ''User is blocked.''\<rparr>, st)
                      else if \<not> bcrypt_compare L pw (password u)
                      then (\<lparr>code = 401, rbody = Error ''Invalid email or password.''\<rparr>, st)
                      else
                        (let token = jwt_sign L \<lparr>pid = user_id u, pemail = email u\<rparr>
                                       (secret ev) ''1h'' (NOW ev) in
                         case update_last_login (user_id u) (NOW ev) st of
                           Inl err \<Rightarrow> (\<lparr>code = 500, rbody = Error ''Login failed.''\<rparr>, st)
                         | Inr st' \<Rightarrow>
                             (\<lparr>code = 200, rbody = Message_token ''Login successful!'' token\<rparr>,
                              st'))))
      | _ \<Rightarrow> (\<lparr>code = 400, rbody = Error ''Email and password are required.''\<rparr>, st))"

text \<open>The handler of \<open>GET /api/users\<close>, after its middleware.\<close>

definition get_users :: "state \<Rightarrow> response \<times> state" where
  "get_users st =
     (case select_all_users st of
        Inl err \<Rightarrow> (\<lparr>code = 500, rbody = Error ''Could not fetch users.''\<rparr>, st)
      | Inr rows \<Rightarrow> (\<lparr>code = 200, rbody = Users rows\<rparr>, st))"

text \<open>The handler of \<open>PUT /api/users/block/:id\<close>, after its middleware.\<close>

definition block_user :: "libs \<Rightarrow> string \<Rightarrow> state \<Rightarrow> response \<times> state" where
  "block_user L i st =
     (case update_status L ''blocked'' i st of
        Inl err \<Rightarrow> (\<lparr>code = 500, rbody = Error ''Could not block user.''\<rparr>, st)
      | Inr (st', rowCount) \<Rightarrow>
          if rowCount = 0 then (\<lparr>code = 404, rbody = Error ''User not found.''\<rparr>, st')
          else (\<lparr>code = 200, rbody = Message ''User has been blocked.''\<rparr>,
                st'\<lparr>emitted := emitted st' @ [''usersUpdated'']\<rparr>))"

text \<open>The handler of \<open>PUT /api/users/unblock/:id\<close>, after its middleware.\<close>

definition unblock_user :: "libs \<Rightarrow> string \<Rightarrow> state \<Rightarrow> response \<times> state" where
  "unblock_user L i st =
     (case update_status L ''active'' i st of
        Inl err \<Rightarrow> (\<lparr>code = 500, rbody = Error ''Could not unblock user.''\<rparr>, st)
      | Inr (st', rowCount) \<Rightarrow>
          if rowCount = 0 then (\<lparr>code = 404, rbody = Error ''User not found.''\<rparr>, st')
          else (\<lparr>code = 200, rbody = Message ''User has been unblocked.''\<rparr>,
                st'\<lparr>emitted := emitted st' @ [''usersUpdated'']\<rparr>))"

subsection \<open>The application\<close>

text \<open>A route guarded by \<open>authenticateToken\<close>, and one guarded by \<open>authenticateToken\<close>
  and then \<open>checkIfBlocked\<close>.\<close>

definition with_token ::
  "libs \<Rightarrow> env \<Rightarrow> request \<Rightarrow> state \<Rightarrow> (state \<Rightarrow> response \<times> state) \<Rightarrow> response \<times> state" where
  "with_token L ev req st handler =
     (case authenticateToken L ev req of
        Inl res \<Rightarrow> (res, st)
      | Inr u \<Rightarrow> handler st)"

definition with_token_not_blocked ::
  "libs \<Rightarrow> env \<Rightarrow> request \<Rightarrow> state \<Rightarrow> (state \<Rightarrow> response \<times> state) \<Rightarrow> response \<times> state" where
  "with_token_not_blocked L ev req st handler =
     (case authenticateToken L ev req of
        Inl res \<Rightarrow> (res, st)
      | Inr u \<Rightarrow>
          (case checkIfBlocked st u of
             Inl res \<Rightarrow> (res, st)
           | Inr _ \<Rightarrow> handler st))"

text \<open>
  The routes of \<open>app\<close>, in the order server.js registers them. The \<open>cors\<close> middleware
  answers every \<open>OPTIONS\<close> request itself; a request that no route matches gets the
  404 page of Express.
\<close>

fun route :: "libs \<Rightarrow> env \<Rightarrow> request \<Rightarrow> state \<Rightarrow> http_method \<Rightarrow> url \<Rightarrow> response \<times> state" where
  "route L ev req st OPTIONS _ = (\<lparr>code = 204, rbody = No_content\<rparr>, st)"
| "route L ev req st POST Api_register = register L ev req st"
| "route L ev req st POST Api_login = login L ev req st"
| "route L ev req st GET Api_users = with_token L ev req st get_users"
| "route L ev req st PUT (Api_users_block i) =
     with_token_not_blocked L ev req st (block_user L i)"
| "route L ev req st PUT (Api_users_unblock i) =
     with_token_not_blocked L ev req st (unblock_user L i)"
| "route L ev req st _ _ = (\<lparr>code = 404, rbody = Cannot_route\<rparr>, st)"

definition app :: "libs \<Rightarrow> env \<Rightarrow> request \<Rightarrow> state \<Rightarrow> response \<times> state" where
  "app L ev req st = route L ev req st (rmethod req) (rurl req)"

subsection \<open>The constraints of the table\<close>

text \<open>
  Modelled from the spec: the constraints of the table \<open>users\<close>, whose declaration is
  not in the sources. No two rows share an id, no two rows share an email, and every id
  in use was drawn from the sequence.
\<close>

definition table_ok :: "state \<Rightarrow> bool" where
  "table_ok st \<longleftrightarrow>
     distinct (map user_id (users st)) \<and> distinct (map email (users st)) \<and>
     (\<forall>x \<in> set (users st). user_id x < next_id st)"

subsection \<open>A small instance\<close>

text \<open>
  A two-row table, an environment and stand-ins for the libraries, on which the
  handlers are evaluated below. The stand-in for \<open>jsonwebtoken\<close> knows three tokens:
  \<open>tok1\<close> and \<open>tok2\<close> for the two rows and \<open>tok9\<close> for an id without a row. The
  stand-in for the integer input reads a non-empty run of decimal digits up to
  2147483647 and refuses every other text.
\<close>

definition digit :: "char \<Rightarrow> nat option" where
  "digit c =
     (let k = length (takeWhile (\<lambda>d. d \<noteq> c) ''0123456789'')
      in if k < 10 then Some k else None)"

fun decimal :: "string \<Rightarrow> nat \<Rightarrow> nat option" where
  "decimal [] a = Some a"
| "decimal (c # cs) a = (case digit c of None \<Rightarrow> None | Some d \<Rightarrow> decimal cs (10 * a + d))"

definition stub_pg_integer :: "string \<Rightarrow> pg_error + int" where
  "stub_pg_integer s =
     (if s = [] then Inl (Pg_error ''22P02'')
      else (case decimal s 0 of
              None \<Rightarrow> Inl (Pg_error ''22P02'')
            | Some n \<Rightarrow> if 2147483647 < n then Inl (Pg_error ''22003'') else Inr (int n)))"

definition stub_libs :: libs where
  "stub_libs =
     \<lparr>bcrypt_hash = (\<lambda>pw rounds salt. salt @ ''#'' @ pw),
      bcrypt_compare = (\<lambda>pw h. dropWhile (\<lambda>c. c \<noteq> CHR ''#'') h = ''#'' @ pw),
      jwt_sign = (\<lambda>p k e t. if pid p = 1 then ''tok1'' else ''tok2''),
      jwt_verify = (\<lambda>tok k t.
         if tok = ''tok1'' then Some \<lparr>pid = 1, pemail = ''alice@x.com''\<rparr>
         else if tok = ''tok2'' then Some \<lparr>pid = 2, pemail = ''bob@x.com''\<rparr>
         else if tok = ''tok9'' then Some \<lparr>pid = 9, pemail = ''gone@x.com''\<rparr>
         else None),
      pg_integer = stub_pg_integer\<rparr>"

definition demo_env :: env where
  "demo_env = \<lparr>JWT_SECRET = None, NOW = 100, SALT = ''s''\<rparr>"

definition alice :: user where
  "alice = \<lparr>user_id = 1, name = ''Alice'', email = ''alice@x.com'', password = ''s#pw123'',
            status = ''active'', last_login = 10\<rparr>"

definition bob :: user where
  "bob = \<lparr>user_id = 2, name = ''Bob'', email = ''bob@x.com'', password = ''s#hunter2'',
          status = ''blocked'', last_login = 20\<rparr>"

definition demo_state :: state where
  "demo_state = \<lparr>users = [alice, bob], next_id = 3, emitted = []\<rparr>"

definition demo_request :: "http_method \<Rightarrow> url \<Rightarrow> string option \<Rightarrow> request" where
  "demo_request m p h =
     \<lparr>rmethod = m, rurl = p, authorization = h,
      body_name = None, body_email = None, body_password = None\<rparr>"

definition demo_form :: "url \<Rightarrow> string option \<Rightarrow> string option \<Rightarrow> string option \<Rightarrow> request" where
  "demo_form p n e pw =
     \<lparr>rmethod = POST, rurl = p, authorization = None,
      body_name = n, body_email = e, body_password = pw\<rparr>"

section \<open>Properties\<close>

subsection \<open>Reading the Authorization header\<close>

lemma split_not_Nil: "split s c \<noteq> []"
  by (induction s) (auto split: list.splits)

lemma index_split_0: "index (split s c) 0 = Some (takeWhile (\<lambda>x. x \<noteq> c) s)"
proof (induction s)
  case Nil
  then show ?case by simp
next
  case (Cons x xs)
  then show ?case using split_not_Nil [of xs c]
    by (cases "split xs c") auto
qed

lemma split_Bearer:
  "index (split (''Bearer '' @ t) CHR '' '') 1 = Some (takeWhile (\<lambda>x. x \<noteq> CHR '' '') t)"
proof -
  obtain p ps where sp: "split t CHR '' '' = p # ps"
    using split_not_Nil [of t "CHR '' ''"] by (cases "split t CHR '' ''") auto
  have "index (split t CHR '' '') 0 = Some p" using sp by simp
  then have p: "p = takeWhile (\<lambda>x. x \<noteq> CHR '' '') t" by (simp add: index_split_0)
  have "split (''Bearer '' @ t) CHR '' '' = ''Bearer'' # p # ps"
    using sp by simp
  then show ?thesis using p by simp
qed

lemma startsWith_Bearer: "startsWith h ''Bearer '' \<longleftrightarrow> (\<exists>t. h = ''Bearer '' @ t)"
proof
  assume "startsWith h ''Bearer ''"
  then have "take (length ''Bearer '') h = ''Bearer ''" by (simp only: startsWith_def)
  then have "h = ''Bearer '' @ drop (length ''Bearer '') h" by (metis append_take_drop_id)
  then show "\<exists>t. h = ''Bearer '' @ t" ..
next
  assume "\<exists>t. h = ''Bearer '' @ t"
  then show "startsWith h ''Bearer ''" by (auto simp: startsWith_def)
qed

lemma authenticateToken_eq:
  "authenticateToken L ev req =
     (case authorization req of
        None \<Rightarrow> Inl \<lparr>code = 401, rbody = Error ''Access denied. No token provided.''\<rparr>
      | Some h \<Rightarrow>
          if \<not> startsWith h ''Bearer ''
          then Inl \<lparr>code = 401, rbody = Error ''Access denied. No token provided.''\<rparr>
          else (case jwt_verify L (takeWhile (\<lambda>x. x \<noteq> CHR '' '') (drop 7 h)) (secret ev) (NOW ev) of
                  None \<Rightarrow> Inl \<lparr>code = 403, rbody = Error ''Invalid token.''\<rparr>
                | Some u \<Rightarrow> Inr u))"
proof (cases "authorization req")
  case None
  then show ?thesis by (simp add: authenticateToken_def)
next
  case (Some h)
  show ?thesis
  proof (cases "startsWith h ''Bearer ''")
    case False
    then show ?thesis using Some by (simp add: authenticateToken_def)
  next
    case True
    then obtain t where h: "h = ''Bearer '' @ t" using startsWith_Bearer by blast
    have ne: "h \<noteq> []" using h by simp
    have "index (split h CHR '' '') 1 = Some (takeWhile (\<lambda>x. x \<noteq> CHR '' '') (drop 7 h))"
      unfolding h using split_Bearer [of t] by simp
    then show ?thesis using Some True ne by (simp add: authenticateToken_def)
  qed
qed

subsection \<open>The two checks of the gate\<close>

lemma filter_unique:
  "distinct (map f xs) \<Longrightarrow> r \<in> set xs \<Longrightarrow> filter (\<lambda>x. f x = f r) xs = [r]"
proof (induction xs)
  case Nil
  then show ?case by simp
next
  case (Cons a xs)
  show ?case
  proof (cases "a = r")
    case True
    have "f r \<notin> f ` set xs" using Cons.prems(1) True by simp
    then have "filter (\<lambda>x. f x = f r) xs = []"
      unfolding filter_empty_conv by (metis imageI)
    then show ?thesis using True by simp
  next
    case False
    then have "r \<in> set xs" using Cons.prems(2) by simp
    moreover have "f a \<noteq> f r" using Cons.prems(1) \<open>r \<in> set xs\<close> by auto
    ultimately show ?thesis using Cons by simp
  qed
qed

lemma checkIfBlocked_blocked:
  assumes "distinct (map user_id (users st))" "r \<in> set (users st)" "user_id r = pid u"
    "status r = ''blocked''"
  shows "checkIfBlocked st u =
           Inl \<lparr>code = 403, rbody = Error ''You are blocked. Action not allowed.''\<rparr>"
proof -
  have "filter (\<lambda>x. user_id x = pid u) (users st) = [r]"
    using filter_unique [of user_id "users st" r] assms by simp
  then show ?thesis using assms(4) by (simp add: checkIfBlocked_def select_by_id_def)
qed


text \<open>
  Claim C1. A request to a guarded route (\<open>GET /api/users\<close>, \<open>PUT /api/users/block/:id\<close>,
  \<open>PUT /api/users/unblock/:id\<close>) passes two checks in turn. Without an
  \<open>Authorization\<close> header, or with one that does not start with \<open>Bearer\<close> and a space,
  it is answered 401 "Access denied. No token provided."; with a bearer token that
  \<open>jwt.verify\<close> rejects (invalid or expired) it is answered 403 "Invalid token.". On the
  two mutating routes the row of the acting user is then read from the table, and when
  its status is \<open>blocked\<close> the request is answered 403 "You are blocked. Action not
  allowed." although the token verifies. In all three cases the state is unchanged.
\<close>

theorem authorization_gate:
  assumes "rmethod req = GET \<and> rurl req = Api_users
         \<or> rmethod req = PUT \<and> (rurl req = Api_users_block i \<or> rurl req = Api_users_unblock i)"
  shows
    "(authorization req = None \<or>
        (\<exists>h. authorization req = Some h \<and> \<not> startsWith h ''Bearer '')
      \<longrightarrow> app L ev req st =
            (\<lparr>code = 401, rbody = Error ''Access denied. No token provided.''\<rparr>, st))
   \<and> (authorization req = Some h \<and> startsWith h ''Bearer '' \<and>
        jwt_verify L (takeWhile (\<lambda>x. x \<noteq> CHR '' '') (drop 7 h)) (secret ev) (NOW ev) = None
      \<longrightarrow> app L ev req st = (\<lparr>code = 403, rbody = Error ''Invalid token.''\<rparr>, st))
   \<and> (rmethod req = PUT \<and>
        authorization req = Some h \<and> startsWith h ''Bearer '' \<and>
        jwt_verify L (takeWhile (\<lambda>x. x \<noteq> CHR '' '') (drop 7 h)) (secret ev) (NOW ev) = Some u \<and>
        distinct (map user_id (users st)) \<and>
        r \<in> set (users st) \<and> user_id r = pid u \<and> status r = ''blocked''
      \<longrightarrow> app L ev req st =
            (\<lparr>code = 403, rbody = Error ''You are blocked. Action not allowed.''\<rparr>, st))"
proof (intro conjI impI)
  assume "authorization req = None \<or>
            (\<exists>h. authorization req = Some h \<and> \<not> startsWith h ''Bearer '')"
  then have "authenticateToken L ev req =
               Inl \<lparr>code = 401, rbody = Error ''Access denied. No token provided.''\<rparr>"
    by (auto simp: authenticateToken_eq)
  then show "app L ev req st =
               (\<lparr>code = 401, rbody = Error ''Access denied. No token provided.''\<rparr>, st)"
    using assms by (auto simp: app_def with_token_def with_token_not_blocked_def)
next
  assume "authorization req = Some h \<and> startsWith h ''Bearer '' \<and>
        jwt_verify L (takeWhile (\<lambda>x. x \<noteq> CHR '' '') (drop 7 h)) (secret ev) (NOW ev) = None"
  then have "authenticateToken L ev req = Inl \<lparr>code = 403, rbody = Error ''Invalid token.''\<rparr>"
    by (simp add: authenticateToken_eq)
  then show "app L ev req st = (\<lparr>code = 403, rbody = Error ''Invalid token.''\<rparr>, st)"
    using assms by (auto simp: app_def with_token_def with_token_not_blocked_def)
next
  assume a: "rmethod req = PUT \<and>
        authorization req = Some h \<and> startsWith h ''Bearer '' \<and>
        jwt_verify L (takeWhile (\<lambda>x. x \<noteq> CHR '' '') (drop 7 h)) (secret ev) (NOW ev) = Some u \<and>
        distinct (map user_id (users st)) \<and>
        r \<in> set (users st) \<and> user_id r = pid u \<and> status r = ''blocked''"
  then have t: "authenticateToken L ev req = Inr u"
    by (simp add: authenticateToken_eq)
  have b: "checkIfBlocked st u =
             Inl \<lparr>code = 403, rbody = Error ''You are blocked. Action not allowed.''\<rparr>"
    using a checkIfBlocked_blocked by blast
  show "app L ev req st =
          (\<lparr>code = 403, rbody = Error ''You are blocked. Action not allowed.''\<rparr>, st)"
    using assms a t b by (auto simp: app_def with_token_not_blocked_def)
qed

theorem authorization_gate_witness:
  "app stub_libs demo_env (demo_request GET Api_users (Some ''Basic abc'')) demo_state =
     (\<lparr>code = 401, rbody = Error ''Access denied. No token provided.''\<rparr>, demo_state)
   \<and> app stub_libs demo_env (demo_request PUT (Api_users_block ''1'') (Some ''Bearer forged'')) demo_state =
     (\<lparr>code = 403, rbody = Error ''Invalid token.''\<rparr>, demo_state)
   \<and> app stub_libs demo_env (demo_request PUT (Api_users_block ''1'') (Some ''Bearer tok2'')) demo_state =
     (\<lparr>code = 403, rbody = Error ''You are blocked. Action not allowed.''\<rparr>, demo_state)"
proof -
  have 1: "rmethod (demo_request GET Api_users (Some ''Basic abc'')) = GET \<and>
           rurl (demo_request GET Api_users (Some ''Basic abc'')) = Api_users
         \<or> rmethod (demo_request GET Api_users (Some ''Basic abc'')) = PUT \<and>
           (rurl (demo_request GET Api_users (Some ''Basic abc'')) = Api_users_block ''1'' \<or>
            rurl (demo_request GET Api_users (Some ''Basic abc'')) = Api_users_unblock ''1'')"
    by (simp add: demo_request_def)
  have 2: "rmethod (demo_request PUT (Api_users_block ''1'') a) = GET \<and>
           rurl (demo_request PUT (Api_users_block ''1'') a) = Api_users
         \<or> rmethod (demo_request PUT (Api_users_block ''1'') a) = PUT \<and>
           (rurl (demo_request PUT (Api_users_block ''1'') a) = Api_users_block ''1'' \<or>
            rurl (demo_request PUT (Api_users_block ''1'') a) = Api_users_unblock ''1'')" for a
    by (simp add: demo_request_def)
  show ?thesis
    using authorization_gate [OF 1, where L = stub_libs and ev = demo_env and st = demo_state]
      authorization_gate [OF 2 [of "Some ''Bearer forged''"], where h = "''Bearer forged''"
        and L = stub_libs and ev = demo_env and st = demo_state]
      authorization_gate [OF 2 [of "Some ''Bearer tok2''"], where h = "''Bearer tok2''"
        and L = stub_libs and ev = demo_env and st = demo_state
        and u = "\<lparr>pid = 2, pemail = ''bob@x.com''\<rparr>" and r = bob]
    by (simp add: demo_request_def startsWith_def stub_libs_def demo_state_def bob_def alice_def)
qed



subsection \<open>Blocking and unblocking\<close>

lemma update_rows_missing:
  "k \<notin> int ` user_id ` set xs \<Longrightarrow>
   map (\<lambda>x. if int (user_id x) = k then f x else x) xs = xs"
  by (induction xs) auto

lemma count_rows_zero:
  "length (filter (\<lambda>x. int (user_id x) = k) xs) = 0 \<longleftrightarrow> k \<notin> int ` user_id ` set xs"
  by (induction xs) auto

lemma update_status_rejected:
  "pg_integer L i = Inl err \<Longrightarrow> update_status L v i st = Inl err"
  by (simp add: update_status_def)

lemma update_status_missing:
  "pg_integer L i = Inr k \<Longrightarrow> k \<notin> int ` user_id ` set (users st) \<Longrightarrow>
   update_status L v i st = Inr (st, 0)"
  using count_rows_zero [of k "users st"]
  by (simp add: update_status_def update_rows_missing)

lemma block_user_rejected:
  "pg_integer L i = Inl err \<Longrightarrow>
   block_user L i st = (\<lparr>code = 500, rbody = Error ''Could not block user.''\<rparr>, st)"
  by (simp add: block_user_def update_status_rejected)

lemma unblock_user_rejected:
  "pg_integer L i = Inl err \<Longrightarrow>
   unblock_user L i st = (\<lparr>code = 500, rbody = Error ''Could not unblock user.''\<rparr>, st)"
  by (simp add: unblock_user_def update_status_rejected)

lemma block_user_missing:
  "pg_integer L i = Inr k \<Longrightarrow> k \<notin> int ` user_id ` set (users st) \<Longrightarrow>
   block_user L i st = (\<lparr>code = 404, rbody = Error ''User not found.''\<rparr>, st)"
  by (simp add: block_user_def update_status_missing)

lemma unblock_user_missing:
  "pg_integer L i = Inr k \<Longrightarrow> k \<notin> int ` user_id ` set (users st) \<Longrightarrow>
   unblock_user L i st = (\<lparr>code = 404, rbody = Error ''User not found.''\<rparr>, st)"
  by (simp add: unblock_user_def update_status_missing)

lemma block_user_present:
  "pg_integer L i = Inr k \<Longrightarrow> k \<in> int ` user_id ` set (users st) \<Longrightarrow>
   block_user L i st =
     (\<lparr>code = 200, rbody = Message ''User has been blocked.''\<rparr>,
      st\<lparr>users := map (\<lambda>x. if int (user_id x) = k then x\<lparr>status := ''blocked''\<rparr> else x)
                     (users st),
         emitted := emitted st @ [''usersUpdated'']\<rparr>)"
  using count_rows_zero [of k "users st"]
  by (simp add: block_user_def update_status_def)

lemma unblock_user_present:
  "pg_integer L i = Inr k \<Longrightarrow> k \<in> int ` user_id ` set (users st) \<Longrightarrow>
   unblock_user L i st =
     (\<lparr>code = 200, rbody = Message ''User has been unblocked.''\<rparr>,
      st\<lparr>users := map (\<lambda>x. if int (user_id x) = k then x\<lparr>status := ''active''\<rparr> else x)
                     (users st),
         emitted := emitted st @ [''usersUpdated'']\<rparr>)"
  using count_rows_zero [of k "users st"]
  by (simp add: unblock_user_def update_status_def)

lemma app_block_passed:
  "rmethod req = PUT \<Longrightarrow> rurl req = Api_users_block i \<Longrightarrow>
   authenticateToken L ev req = Inr u \<Longrightarrow> checkIfBlocked st u = Inr () \<Longrightarrow>
   app L ev req st = block_user L i st"
  by (simp add: app_def with_token_not_blocked_def)

lemma app_unblock_passed:
  "rmethod req = PUT \<Longrightarrow> rurl req = Api_users_unblock i \<Longrightarrow>
   authenticateToken L ev req = Inr u \<Longrightarrow> checkIfBlocked st u = Inr () \<Longrightarrow>
   app L ev req st = unblock_user L i st"
  by (simp add: app_def with_token_not_blocked_def)

lemma demo_token1:
  "authenticateToken stub_libs demo_env (demo_request m p (Some ''Bearer tok1'')) =
     Inr \<lparr>pid = 1, pemail = ''alice@x.com''\<rparr>"
  by (simp add: authenticateToken_def demo_request_def startsWith_def stub_libs_def)

lemma demo_token2:
  "authenticateToken stub_libs demo_env (demo_request m p (Some ''Bearer tok2'')) =
     Inr \<lparr>pid = 2, pemail = ''bob@x.com''\<rparr>"
  by (simp add: authenticateToken_def demo_request_def startsWith_def stub_libs_def)

lemma demo_not_blocked1:
  "checkIfBlocked demo_state \<lparr>pid = 1, pemail = ''alice@x.com''\<rparr> = Inr ()"
  by (simp add: checkIfBlocked_def select_by_id_def demo_state_def alice_def bob_def)

lemma demo_integers:
  "pg_integer stub_libs ''1'' = Inr 1"
  "pg_integer stub_libs ''2'' = Inr 2"
  "pg_integer stub_libs ''7'' = Inr 7"
  "pg_integer stub_libs ''abc'' = Inl (Pg_error ''22P02'')"
  "pg_integer stub_libs ''2147483648'' = Inl (Pg_error ''22003'')"
  by (simp_all add: stub_libs_def stub_pg_integer_def digit_def)

lemma demo_ids: "int ` user_id ` set (users demo_state) = {1, 2}"
  by (auto simp: demo_state_def alice_def bob_def)

text \<open>
  Claim C3, as the spec states it: for every block request that passes the gate, when
  no row matches the target id the answer is "not found". It fails on the code: the
  handler hands the text of the path parameter to the \<open>UPDATE\<close>, and when PostgreSQL
  does not read an integer from it (\<open>abc\<close>, \<open>2147483648\<close>) the statement throws and the
  \<open>catch\<close> branch answers 500 "Could not block user.", although no row matches.
\<close>

theorem block_unblock_behind_gate_counterexample:
  "authenticateToken stub_libs demo_env
     (demo_request PUT (Api_users_block ''abc'') (Some ''Bearer tok1'')) =
     Inr \<lparr>pid = 1, pemail = ''alice@x.com''\<rparr>
   \<and> checkIfBlocked demo_state \<lparr>pid = 1, pemail = ''alice@x.com''\<rparr> = Inr ()
   \<and> app stub_libs demo_env (demo_request PUT (Api_users_block ''abc'') (Some ''Bearer tok1''))
       demo_state =
     (\<lparr>code = 500, rbody = Error ''Could not block user.''\<rparr>, demo_state)
   \<and> app stub_libs demo_env (demo_request PUT (Api_users_block ''2147483648'') (Some ''Bearer tok1''))
       demo_state =
     (\<lparr>code = 500, rbody = Error ''Could not block user.''\<rparr>, demo_state)"
proof -
  have "app stub_libs demo_env (demo_request PUT (Api_users_block i) (Some ''Bearer tok1''))
          demo_state = block_user stub_libs i demo_state" for i
    using demo_token1 [of PUT "Api_users_block i"] demo_not_blocked1
    by (simp add: app_def with_token_not_blocked_def demo_request_def)
  then show ?thesis
    using demo_token1 [of PUT "Api_users_block ''abc''"] demo_not_blocked1
    by (simp add: block_user_def update_status_def demo_integers)
qed

text \<open>
  Claim C3, amended. A block (resp. unblock) request that passes both checks of the
  gate, with a path parameter that PostgreSQL reads as an integer: when no row has that
  id, it is answered 404 "User not found." and the state is unchanged; when a row has
  it, the status of that row becomes \<open>blocked\<close> (resp. \<open>active\<close>) and no other row
  changes, \<open>usersUpdated\<close> is handed to \<open>io.emit\<close>, which broadcasts to every connected
  client, and the answer is 200 with the success message. With a path parameter that
  PostgreSQL does not read as an integer the answer is 500 "Could not block user."
  (resp. "Could not unblock user."), the state is unchanged and nothing is broadcast.
\<close>

theorem block_unblock_behind_gate:
  assumes "rmethod req = PUT"
    and "authenticateToken L ev req = Inr u"
    and "checkIfBlocked st u = Inr ()"
  shows
    "(rurl req = Api_users_block i \<and> pg_integer L i = Inr k \<and>
      k \<notin> int ` user_id ` set (users st) \<longrightarrow>
        app L ev req st = (\<lparr>code = 404, rbody = Error ''User not found.''\<rparr>, st))
   \<and> (rurl req = Api_users_block i \<and> pg_integer L i = Inr k \<and>
      k \<in> int ` user_id ` set (users st) \<longrightarrow>
        app L ev req st =
          (\<lparr>code = 200, rbody = Message ''User has been blocked.''\<rparr>,
           st\<lparr>users := map (\<lambda>x. if int (user_id x) = k then x\<lparr>status := ''blocked''\<rparr> else x)
                          (users st),
              emitted := emitted st @ [''usersUpdated'']\<rparr>))
   \<and> (rurl req = Api_users_block i \<and> pg_integer L i = Inl err \<longrightarrow>
        app L ev req st = (\<lparr>code = 500, rbody = Error ''Could not block user.''\<rparr>, st))
   \<and> (rurl req = Api_users_unblock i \<and> pg_integer L i = Inr k \<and>
      k \<notin> int ` user_id ` set (users st) \<longrightarrow>
        app L ev req st = (\<lparr>code = 404, rbody = Error ''User not found.''\<rparr>, st))
   \<and> (rurl req = Api_users_unblock i \<and> pg_integer L i = Inr k \<and>
      k \<in> int ` user_id ` set (users st) \<longrightarrow>
        app L ev req st =
          (\<lparr>code = 200, rbody = Message ''User has been unblocked.''\<rparr>,
           st\<lparr>users := map (\<lambda>x. if int (user_id x) = k then x\<lparr>status := ''active''\<rparr> else x)
                          (users st),
              emitted := emitted st @ [''usersUpdated'']\<rparr>))
   \<and> (rurl req = Api_users_unblock i \<and> pg_integer L i = Inl err \<longrightarrow>
        app L ev req st = (\<lparr>code = 500, rbody = Error ''Could not unblock user.''\<rparr>, st))"
  using app_block_passed [OF assms(1) _ assms(2,3), of i]
    app_unblock_passed [OF assms(1) _ assms(2,3), of i]
    block_user_missing [of L i k st] block_user_present [of L i k st]
    block_user_rejected [of L i err st]
    unblock_user_missing [of L i k st] unblock_user_present [of L i k st]
    unblock_user_rejected [of L i err st]
  by simp

theorem block_unblock_behind_gate_witness:
  "app stub_libs demo_env (demo_request PUT (Api_users_block ''7'') (Some ''Bearer tok1'')) demo_state =
     (\<lparr>code = 404, rbody = Error ''User not found.''\<rparr>, demo_state)
   \<and> app stub_libs demo_env (demo_request PUT (Api_users_block ''1'') (Some ''Bearer tok1'')) demo_state =
     (\<lparr>code = 200, rbody = Message ''User has been blocked.''\<rparr>,
      \<lparr>users = [alice\<lparr>status := ''blocked''\<rparr>, bob], next_id = 3, emitted = [''usersUpdated'']\<rparr>)
   \<and> app stub_libs demo_env (demo_request PUT (Api_users_block ''abc'') (Some ''Bearer tok1'')) demo_state =
     (\<lparr>code = 500, rbody = Error ''Could not block user.''\<rparr>, demo_state)
   \<and> app stub_libs demo_env (demo_request PUT (Api_users_unblock ''7'') (Some ''Bearer tok1'')) demo_state =
     (\<lparr>code = 404, rbody = Error ''User not found.''\<rparr>, demo_state)
   \<and> app stub_libs demo_env (demo_request PUT (Api_users_unblock ''2'') (Some ''Bearer tok1'')) demo_state =
     (\<lparr>code = 200, rbody = Message ''User has been unblocked.''\<rparr>,
      \<lparr>users = [alice, bob\<lparr>status := ''active''\<rparr>], next_id = 3, emitted = [''usersUpdated'']\<rparr>)
   \<and> app stub_libs demo_env (demo_request PUT (Api_users_unblock ''2147483648'') (Some ''Bearer tok1''))
       demo_state =
     (\<lparr>code = 500, rbody = Error ''Could not unblock user.''\<rparr>, demo_state)"
proof -
  let ?u = "\<lparr>pid = 1, pemail = ''alice@x.com''\<rparr>"
  have m: "rmethod (demo_request PUT p (Some ''Bearer tok1'')) = PUT" for p
    by (simp add: demo_request_def)
  have u: "rurl (demo_request PUT p (Some ''Bearer tok1'')) = p" for p
    by (simp add: demo_request_def)
  note g = block_unblock_behind_gate [OF m demo_token1 demo_not_blocked1]
  have "app stub_libs demo_env (demo_request PUT (Api_users_block ''7'') (Some ''Bearer tok1''))
          demo_state = (\<lparr>code = 404, rbody = Error ''User not found.''\<rparr>, demo_state)"
    using g [of "Api_users_block ''7''" "''7''" 7] u demo_integers demo_ids by simp
  moreover
  have "app stub_libs demo_env (demo_request PUT (Api_users_block ''1'') (Some ''Bearer tok1''))
          demo_state =
        (\<lparr>code = 200, rbody = Message ''User has been blocked.''\<rparr>,
         \<lparr>users = [alice\<lparr>status := ''blocked''\<rparr>, bob], next_id = 3,
          emitted = [''usersUpdated'']\<rparr>)"
    using g [of "Api_users_block ''1''" "''1''" 1] u demo_integers demo_ids
    by (simp add: demo_state_def alice_def bob_def)
  moreover
  have "app stub_libs demo_env (demo_request PUT (Api_users_block ''abc'') (Some ''Bearer tok1''))
          demo_state = (\<lparr>code = 500, rbody = Error ''Could not block user.''\<rparr>, demo_state)"
    using g [of "Api_users_block ''abc''" "''abc''" _ "Pg_error ''22P02''"] u demo_integers by simp
  moreover
  have "app stub_libs demo_env (demo_request PUT (Api_users_unblock ''7'') (Some ''Bearer tok1''))
          demo_state = (\<lparr>code = 404, rbody = Error ''User not found.''\<rparr>, demo_state)"
    using g [of "Api_users_unblock ''7''" "''7''" 7] u demo_integers demo_ids by simp
  moreover
  have "app stub_libs demo_env (demo_request PUT (Api_users_unblock ''2'') (Some ''Bearer tok1''))
          demo_state =
        (\<lparr>code = 200, rbody = Message ''User has been unblocked.''\<rparr>,
         \<lparr>users = [alice, bob\<lparr>status := ''active''\<rparr>], next_id = 3,
          emitted = [''usersUpdated'']\<rparr>)"
    using g [of "Api_users_unblock ''2''" "''2''" 2] u demo_integers demo_ids
    by (simp add: demo_state_def alice_def bob_def)
  moreover
  have "app stub_libs demo_env
          (demo_request PUT (Api_users_unblock ''2147483648'') (Some ''Bearer tok1'')) demo_state =
        (\<lparr>code = 500, rbody = Error ''Could not unblock user.''\<rparr>, demo_state)"
    using g [of "Api_users_unblock ''2147483648''" "''2147483648''" _ "Pg_error ''22003''"]
      u demo_integers by simp
  ultimately show ?thesis by blast
qed

subsection \<open>Repeating a block or an unblock\<close>

lemma update_rows_twice:
  "map (\<lambda>x. if int (user_id x) = k then x\<lparr>status := v\<rparr> else x)
     (map (\<lambda>x. if int (user_id x) = k then x\<lparr>status := v\<rparr> else x) xs) =
   map (\<lambda>x. if int (user_id x) = k then x\<lparr>status := v\<rparr> else x) xs"
  by (induction xs) auto

lemma update_rows_ids:
  "user_id ` set (map (\<lambda>x. if int (user_id x) = k then x\<lparr>status := v\<rparr> else x) xs) =
   user_id ` set xs"
  by (induction xs) auto

lemma update_rows_same:
  "\<forall>x \<in> set xs. user_id x = i \<longrightarrow> status x = v \<Longrightarrow>
   map (\<lambda>x. if int (user_id x) = int i then x\<lparr>status := v\<rparr> else x) xs = xs"
  by (induction xs) auto

lemma block_user_twice:
  "fst (block_user L i (snd (block_user L i st))) = fst (block_user L i st) \<and>
   users (snd (block_user L i (snd (block_user L i st)))) = users (snd (block_user L i st))"
proof (cases "pg_integer L i")
  case (Inl err)
  then show ?thesis by (simp add: block_user_rejected)
next
  case (Inr k)
  show ?thesis
  proof (cases "k \<in> int ` user_id ` set (users st)")
    case False
    then show ?thesis using Inr by (simp add: block_user_missing)
  next
    case True
    let ?s = "st\<lparr>users := map (\<lambda>x. if int (user_id x) = k then x\<lparr>status := ''blocked''\<rparr> else x)
                            (users st),
                 emitted := emitted st @ [''usersUpdated'']\<rparr>"
    have "user_id ` set (users ?s) = user_id ` set (users st)"
      using update_rows_ids [of k "''blocked''" "users st"] by simp
    then have "k \<in> int ` user_id ` set (users ?s)" using True by simp
    then show ?thesis
      using block_user_present [OF Inr True] block_user_present [OF Inr, of ?s]
      by (simp add: update_rows_twice)
  qed
qed

lemma unblock_user_twice:
  "fst (unblock_user L i (snd (unblock_user L i st))) = fst (unblock_user L i st) \<and>
   users (snd (unblock_user L i (snd (unblock_user L i st)))) = users (snd (unblock_user L i st))"
proof (cases "pg_integer L i")
  case (Inl err)
  then show ?thesis by (simp add: unblock_user_rejected)
next
  case (Inr k)
  show ?thesis
  proof (cases "k \<in> int ` user_id ` set (users st)")
    case False
    then show ?thesis using Inr by (simp add: unblock_user_missing)
  next
    case True
    let ?s = "st\<lparr>users := map (\<lambda>x. if int (user_id x) = k then x\<lparr>status := ''active''\<rparr> else x)
                            (users st),
                 emitted := emitted st @ [''usersUpdated'']\<rparr>"
    have "user_id ` set (users ?s) = user_id ` set (users st)"
      using update_rows_ids [of k "''active''" "users st"] by simp
    then have "k \<in> int ` user_id ` set (users ?s)" using True by simp
    then show ?thesis
      using unblock_user_present [OF Inr True] unblock_user_present [OF Inr, of ?s]
      by (simp add: update_rows_twice)
  qed
qed

lemma app_block_cases:
  "rmethod req = PUT \<Longrightarrow> rurl req = Api_users_block i \<Longrightarrow>
   app L ev req st = block_user L i st \<or> (\<exists>res. app L ev req st = (res, st))"
  by (auto simp: app_def with_token_not_blocked_def split: sum.splits)

lemma app_unblock_cases:
  "rmethod req = PUT \<Longrightarrow> rurl req = Api_users_unblock i \<Longrightarrow>
   app L ev req st = unblock_user L i st \<or> (\<exists>res. app L ev req st = (res, st))"
  by (auto simp: app_def with_token_not_blocked_def split: sum.splits)

lemma app_block_twice:
  assumes "rmethod req = PUT" "rurl req = Api_users_block i"
  shows "users (snd (app L ev req (snd (app L ev req st)))) = users (snd (app L ev req st))"
proof -
  consider (handled) "app L ev req st = block_user L i st"
    | (rejected) res where "app L ev req st = (res, st)"
    using app_block_cases [OF assms] by blast
  then show ?thesis
  proof cases
    case rejected
    then show ?thesis by simp
  next
    case handled
    let ?s = "snd (block_user L i st)"
    consider (again) "app L ev req ?s = block_user L i ?s"
      | (stopped) res where "app L ev req ?s = (res, ?s)"
      using app_block_cases [OF assms] by blast
    then show ?thesis
    proof cases
      case again
      then show ?thesis using handled block_user_twice [of L i st] by simp
    next
      case stopped
      then show ?thesis using handled by simp
    qed
  qed
qed

lemma app_unblock_twice:
  assumes "rmethod req = PUT" "rurl req = Api_users_unblock i"
  shows "users (snd (app L ev req (snd (app L ev req st)))) = users (snd (app L ev req st))"
proof -
  consider (handled) "app L ev req st = unblock_user L i st"
    | (rejected) res where "app L ev req st = (res, st)"
    using app_unblock_cases [OF assms] by blast
  then show ?thesis
  proof cases
    case rejected
    then show ?thesis by simp
  next
    case handled
    let ?s = "snd (unblock_user L i st)"
    consider (again) "app L ev req ?s = unblock_user L i ?s"
      | (stopped) res where "app L ev req ?s = (res, ?s)"
      using app_unblock_cases [OF assms] by blast
    then show ?thesis
    proof cases
      case again
      then show ?thesis using handled unblock_user_twice [of L i st] by simp
    next
      case stopped
      then show ?thesis using handled by simp
    qed
  qed
qed

text \<open>
  Claim C9. Block and unblock are idempotent. A block request that passes the gate for
  a target whose status is already \<open>blocked\<close> (resp. an unblock for one already
  \<open>active\<close>) gets the same 200 answer with the same message, and the table is left as
  it was; there is no error for "already in that state". Sending the same request twice
  leaves the table as sending it once does, and the handler behind the gate, run twice,
  answers the second time as the first. The target is the row whose id PostgreSQL reads
  from the path parameter.
\<close>

theorem block_unblock_idempotent:
  assumes "rmethod req = PUT"
  shows
    "(rurl req = Api_users_block s \<and> pg_integer L s = Inr (int i) \<and>
      authenticateToken L ev req = Inr u \<and> checkIfBlocked st u = Inr () \<and>
      i \<in> user_id ` set (users st) \<and>
      (\<forall>x \<in> set (users st). user_id x = i \<longrightarrow> status x = ''blocked'')
      \<longrightarrow> app L ev req st =
            (\<lparr>code = 200, rbody = Message ''User has been blocked.''\<rparr>,
             st\<lparr>emitted := emitted st @ [''usersUpdated'']\<rparr>))
   \<and> (rurl req = Api_users_unblock s \<and> pg_integer L s = Inr (int i) \<and>
      authenticateToken L ev req = Inr u \<and> checkIfBlocked st u = Inr () \<and>
      i \<in> user_id ` set (users st) \<and>
      (\<forall>x \<in> set (users st). user_id x = i \<longrightarrow> status x = ''active'')
      \<longrightarrow> app L ev req st =
            (\<lparr>code = 200, rbody = Message ''User has been unblocked.''\<rparr>,
             st\<lparr>emitted := emitted st @ [''usersUpdated'']\<rparr>))
   \<and> (rurl req = Api_users_block s \<or> rurl req = Api_users_unblock s
      \<longrightarrow> users (snd (app L ev req (snd (app L ev req st)))) = users (snd (app L ev req st)))
   \<and> fst (block_user L s (snd (block_user L s st))) = fst (block_user L s st)
   \<and> users (snd (block_user L s (snd (block_user L s st)))) = users (snd (block_user L s st))
   \<and> fst (unblock_user L s (snd (unblock_user L s st))) = fst (unblock_user L s st)
   \<and> users (snd (unblock_user L s (snd (unblock_user L s st)))) = users (snd (unblock_user L s st))"
proof -
  have a: "app L ev req st =
            (\<lparr>code = 200, rbody = Message ''User has been blocked.''\<rparr>,
             st\<lparr>emitted := emitted st @ [''usersUpdated'']\<rparr>)"
    if "rurl req = Api_users_block s" "pg_integer L s = Inr (int i)"
      "authenticateToken L ev req = Inr u"
      "checkIfBlocked st u = Inr ()" "i \<in> user_id ` set (users st)"
      "\<forall>x \<in> set (users st). user_id x = i \<longrightarrow> status x = ''blocked''"
  proof -
    have "int i \<in> int ` user_id ` set (users st)" using that(5) by blast
    then show ?thesis
      using app_block_passed [OF assms that(1,3,4)] block_user_present [OF that(2)]
        update_rows_same [OF that(6)] by simp
  qed
  have b: "app L ev req st =
            (\<lparr>code = 200, rbody = Message ''User has been unblocked.''\<rparr>,
             st\<lparr>emitted := emitted st @ [''usersUpdated'']\<rparr>)"
    if "rurl req = Api_users_unblock s" "pg_integer L s = Inr (int i)"
      "authenticateToken L ev req = Inr u"
      "checkIfBlocked st u = Inr ()" "i \<in> user_id ` set (users st)"
      "\<forall>x \<in> set (users st). user_id x = i \<longrightarrow> status x = ''active''"
  proof -
    have "int i \<in> int ` user_id ` set (users st)" using that(5) by blast
    then show ?thesis
      using app_unblock_passed [OF assms that(1,3,4)] unblock_user_present [OF that(2)]
        update_rows_same [OF that(6)] by simp
  qed
  have c: "users (snd (app L ev req (snd (app L ev req st)))) = users (snd (app L ev req st))"
    if "rurl req = Api_users_block s \<or> rurl req = Api_users_unblock s"
    using that app_block_twice [OF assms] app_unblock_twice [OF assms] by blast
  show ?thesis
    using a b c block_user_twice [of L s st] unblock_user_twice [of L s st] by blast
qed

theorem block_unblock_idempotent_witness:
  "app stub_libs demo_env (demo_request PUT (Api_users_block ''2'') (Some ''Bearer tok1'')) demo_state =
     (\<lparr>code = 200, rbody = Message ''User has been blocked.''\<rparr>,
      demo_state\<lparr>emitted := [''usersUpdated'']\<rparr>)
   \<and> app stub_libs demo_env (demo_request PUT (Api_users_unblock ''1'') (Some ''Bearer tok1'')) demo_state =
     (\<lparr>code = 200, rbody = Message ''User has been unblocked.''\<rparr>,
      demo_state\<lparr>emitted := [''usersUpdated'']\<rparr>)
   \<and> users (snd (app stub_libs demo_env (demo_request PUT (Api_users_block ''1'') (Some ''Bearer tok1''))
        (snd (app stub_libs demo_env (demo_request PUT (Api_users_block ''1'') (Some ''Bearer tok1''))
           demo_state)))) =
     users (snd (app stub_libs demo_env (demo_request PUT (Api_users_block ''1'') (Some ''Bearer tok1''))
        demo_state))"
proof -
  let ?u = "\<lparr>pid = 1, pemail = ''alice@x.com''\<rparr>"
  have m: "rmethod (demo_request PUT p (Some ''Bearer tok1'')) = PUT" for p
    by (simp add: demo_request_def)
  have u: "rurl (demo_request PUT p (Some ''Bearer tok1'')) = p" for p
    by (simp add: demo_request_def)
  have e: "emitted demo_state = []" by (simp add: demo_state_def)
  have i1: "1 \<in> user_id ` set (users demo_state)" and i2: "2 \<in> user_id ` set (users demo_state)"
    by (simp_all add: demo_state_def alice_def bob_def)
  have s1: "\<forall>x \<in> set (users demo_state). user_id x = 1 \<longrightarrow> status x = ''active''"
    and s2: "\<forall>x \<in> set (users demo_state). user_id x = 2 \<longrightarrow> status x = ''blocked''"
    by (simp_all add: demo_state_def alice_def bob_def)
  have p1: "pg_integer stub_libs ''1'' = Inr (int 1)" and p2: "pg_integer stub_libs ''2'' = Inr (int 2)"
    by (simp_all add: demo_integers)
  have "app stub_libs demo_env (demo_request PUT (Api_users_block ''2'') (Some ''Bearer tok1'')) demo_state =
     (\<lparr>code = 200, rbody = Message ''User has been blocked.''\<rparr>,
      demo_state\<lparr>emitted := emitted demo_state @ [''usersUpdated'']\<rparr>)"
    using block_unblock_idempotent [OF m [of "Api_users_block ''2''"], where s = "''2''" and i = 2
        and L = stub_libs and ev = demo_env and st = demo_state and u = ?u]
      u [of "Api_users_block ''2''"] demo_token1 [of PUT "Api_users_block ''2''"] demo_not_blocked1
      i2 s2 p2
    by blast
  moreover
  have "app stub_libs demo_env (demo_request PUT (Api_users_unblock ''1'') (Some ''Bearer tok1'')) demo_state =
     (\<lparr>code = 200, rbody = Message ''User has been unblocked.''\<rparr>,
      demo_state\<lparr>emitted := emitted demo_state @ [''usersUpdated'']\<rparr>)"
    using block_unblock_idempotent [OF m [of "Api_users_unblock ''1''"], where s = "''1''" and i = 1
        and L = stub_libs and ev = demo_env and st = demo_state and u = ?u]
      u [of "Api_users_unblock ''1''"] demo_token1 [of PUT "Api_users_unblock ''1''"]
      demo_not_blocked1 i1 s1 p1
    by blast
  moreover
  have "users (snd (app stub_libs demo_env (demo_request PUT (Api_users_block ''1'') (Some ''Bearer tok1''))
        (snd (app stub_libs demo_env (demo_request PUT (Api_users_block ''1'') (Some ''Bearer tok1''))
           demo_state)))) =
     users (snd (app stub_libs demo_env (demo_request PUT (Api_users_block ''1'') (Some ''Bearer tok1''))
        demo_state))"
    using block_unblock_idempotent [OF m [of "Api_users_block ''1''"], where s = "''1''"
        and L = stub_libs and ev = demo_env and st = demo_state]
      u [of "Api_users_block ''1''"]
    by blast
  ultimately show ?thesis by (simp add: e)
qed

subsection \<open>Listing the users\<close>

lemma authenticateToken_rejects:
  "authenticateToken L ev req = Inl res \<Longrightarrow> \<exists>m. rbody res = Error m"
  by (auto simp: authenticateToken_eq split: option.splits if_splits)

lemma rows_by_last_login:
  "mset (rev (sort_key last_login xs)) = mset xs \<and>
   sorted_wrt (\<lambda>a b. last_login b \<le> last_login a) (rev (sort_key last_login xs))"
proof -
  have "sorted (map last_login (sort_key last_login xs))" by (rule sorted_sort_key)
  then have "sorted_wrt (\<lambda>a b. last_login a \<le> last_login b) (sort_key last_login xs)"
    by (simp add: sorted_map)
  then show ?thesis by (simp add: sorted_wrt_rev)
qed

text \<open>
  Claim C4. \<open>GET /api/users\<close> asks for a token that verifies and for nothing else: the
  status of the caller is not read, so a blocked caller gets the list too. The answer
  is 200 with every row of the table, latest \<open>last_login\<close> first, each row with the keys
  \<open>id\<close>, \<open>name\<close>, \<open>email\<close>, \<open>last_login\<close>, \<open>status\<close>. Whatever the request, no row of
  the answer has a key \<open>password\<close>.
\<close>

theorem list_users:
  assumes "rmethod req = GET" and "rurl req = Api_users"
  shows
    "(authenticateToken L ev req = Inr u \<longrightarrow>
        (\<exists>us. mset us = mset (users st) \<and>
              sorted_wrt (\<lambda>a b. last_login b \<le> last_login a) us \<and>
              app L ev req st =
                (\<lparr>code = 200,
                  rbody = Users (map (\<lambda>x. [(''id'', Num (user_id x)), (''name'', Str (name x)),
                                           (''email'', Str (email x)),
                                           (''last_login'', Num (last_login x)),
                                           (''status'', Str (status x))]) us)\<rparr>,
                 st)))
   \<and> (\<forall>rows. rbody (fst (app L ev req st)) = Users rows \<longrightarrow>
        (\<forall>row \<in> set rows. ''password'' \<notin> fst ` set row))"
proof (intro conjI impI)
  assume t: "authenticateToken L ev req = Inr u"
  have "app L ev req st =
          (\<lparr>code = 200, rbody = Users (map public_row (rev (sort_key last_login (users st))))\<rparr>, st)"
    using assms t by (simp add: app_def with_token_def get_users_def select_all_users_def)
  then show "\<exists>us. mset us = mset (users st) \<and>
              sorted_wrt (\<lambda>a b. last_login b \<le> last_login a) us \<and>
              app L ev req st =
                (\<lparr>code = 200,
                  rbody = Users (map (\<lambda>x. [(''id'', Num (user_id x)), (''name'', Str (name x)),
                                           (''email'', Str (email x)),
                                           (''last_login'', Num (last_login x)),
                                           (''status'', Str (status x))]) us)\<rparr>,
                 st)"
    using rows_by_last_login [of "users st"] unfolding public_row_def by blast
next
  show "\<forall>rows. rbody (fst (app L ev req st)) = Users rows \<longrightarrow>
        (\<forall>row \<in> set rows. ''password'' \<notin> fst ` set row)"
    using assms authenticateToken_rejects [of L ev req]
    by (auto simp: app_def with_token_def get_users_def select_all_users_def public_row_def
        split: sum.splits)
qed

theorem list_users_witness:
  "status bob = ''blocked''
   \<and> authenticateToken stub_libs demo_env (demo_request GET Api_users (Some ''Bearer tok2'')) =
       Inr \<lparr>pid = user_id bob, pemail = email bob\<rparr>
   \<and> app stub_libs demo_env (demo_request GET Api_users (Some ''Bearer tok2'')) demo_state =
       (\<lparr>code = 200, rbody = Users [public_row bob, public_row alice]\<rparr>, demo_state)
   \<and> ''password'' \<notin> fst ` set (public_row bob)
   \<and> ''password'' \<notin> fst ` set (public_row alice)"
proof -
  let ?req = "demo_request GET Api_users (Some ''Bearer tok2'')"
  have m: "rmethod ?req = GET" and p: "rurl ?req = Api_users"
    by (simp_all add: demo_request_def)
  have r: "rbody (fst (app stub_libs demo_env ?req demo_state)) =
             Users [public_row bob, public_row alice]"
    using m p demo_token2 [of GET Api_users]
    by (simp add: app_def with_token_def get_users_def select_all_users_def demo_state_def
        alice_def bob_def)
  have k: "code (fst (app stub_libs demo_env ?req demo_state)) = 200 \<and>
           snd (app stub_libs demo_env ?req demo_state) = demo_state"
    using list_users [OF m p, of stub_libs demo_env "\<lparr>pid = 2, pemail = ''bob@x.com''\<rparr>" demo_state,
        THEN conjunct1, THEN mp, OF demo_token2 [of GET Api_users]]
    by (elim exE conjE) simp
  have a: "app stub_libs demo_env ?req demo_state =
       (\<lparr>code = 200, rbody = Users [public_row bob, public_row alice]\<rparr>, demo_state)"
    using k r
    by (cases "app stub_libs demo_env ?req demo_state";
        cases "fst (app stub_libs demo_env ?req demo_state)") auto
  have "\<forall>row \<in> set [public_row bob, public_row alice]. ''password'' \<notin> fst ` set row"
    using list_users [OF m p, of stub_libs demo_env _ demo_state] r by blast
  then have b: "''password'' \<notin> fst ` set (public_row bob) \<and>
                ''password'' \<notin> fst ` set (public_row alice)"
    by simp
  have c: "status bob = ''blocked''" by (simp add: bob_def)
  have d: "authenticateToken stub_libs demo_env ?req = Inr \<lparr>pid = user_id bob, pemail = email bob\<rparr>"
    using demo_token2 [of GET Api_users] by (simp add: bob_def)
  show ?thesis using a b c d by blast
qed

subsection \<open>Login\<close>

lemma select_by_email_unique:
  assumes "distinct (map email (users st))" "u \<in> set (users st)"
  shows "select_by_email (email u) st = Inr [u]"
  using filter_unique [of email "users st" u] assms by (simp add: select_by_email_def)

lemma login_blocked:
  assumes "distinct (map email (users st))" "u \<in> set (users st)" "status u = ''blocked''"
    and "body_email req = Some (email u)" "email u \<noteq> []"
    and "body_password req = Some pw" "pw \<noteq> []"
  shows "login L ev req st = (\<lparr>code = 403, rbody = Error ''User is blocked.''\<rparr>, st)"
  using assms select_by_email_unique [OF assms(1,2)] by (simp add: login_def)

lemma login_incomplete:
  assumes "falsy (body_email req) \<or> falsy (body_password req)"
  shows "login L ev req st =
           (\<lparr>code = 400, rbody = Error ''Email and password are required.''\<rparr>, st)"
  using assms by (auto simp: login_def falsy_def split: option.splits)

lemma login_complete:
  "\<not> falsy (body_email req) \<Longrightarrow> \<not> falsy (body_password req) \<Longrightarrow>
   \<exists>e pw. body_email req = Some e \<and> e \<noteq> [] \<and> body_password req = Some pw \<and> pw \<noteq> []"
  by (auto simp: falsy_def split: option.splits)

lemma demo_distinct_emails: "distinct (map email (users demo_state))"
  by (simp add: demo_state_def alice_def bob_def)

text \<open>
  Claim C2. For a user whose stored status is \<open>blocked\<close>, a login attempt with that
  user's email and a password (the credentials) is answered 403 "User is blocked.",
  whether the password is right or wrong, and the state is unchanged. No request to the
  login route that carries the email of a blocked user, with or without a password, is
  answered with the invalid-credentials error (401) or with a token: a blocked user
  cannot obtain a new token through login.
\<close>

theorem blocked_login:
  assumes "rmethod req = POST" and "rurl req = Api_login"
    and "distinct (map email (users st))"
    and "u \<in> set (users st)" and "status u = ''blocked''"
    and "body_email req = Some (email u)"
  shows
    "(\<not> falsy (body_email req) \<and> \<not> falsy (body_password req) \<longrightarrow>
        app L ev req st = (\<lparr>code = 403, rbody = Error ''User is blocked.''\<rparr>, st))
   \<and> code (fst (app L ev req st)) \<noteq> 401
   \<and> rbody (fst (app L ev req st)) \<noteq> Error ''Invalid email or password.''
   \<and> (\<forall>m t. rbody (fst (app L ev req st)) \<noteq> Message_token m t)
   \<and> snd (app L ev req st) = st"
proof -
  have a: "app L ev req st = login L ev req st" using assms(1,2) by (simp add: app_def)
  show ?thesis
  proof (cases "falsy (body_email req) \<or> falsy (body_password req)")
    case True
    then show ?thesis using a login_incomplete [OF True, of L ev st] by auto
  next
    case False
    then obtain e pw where "body_email req = Some e" "e \<noteq> []"
      "body_password req = Some pw" "pw \<noteq> []"
      using login_complete [of req] by blast
    then have "login L ev req st = (\<lparr>code = 403, rbody = Error ''User is blocked.''\<rparr>, st)"
      using login_blocked [OF assms(3,4,5,6), of pw L ev] assms(6) by simp
    then show ?thesis using a False by simp
  qed
qed

theorem blocked_login_witness:
  "app stub_libs demo_env (demo_form Api_login None (Some ''bob@x.com'') (Some ''hunter2'')) demo_state =
     (\<lparr>code = 403, rbody = Error ''User is blocked.''\<rparr>, demo_state)
   \<and> app stub_libs demo_env (demo_form Api_login None (Some ''bob@x.com'') (Some ''wrong'')) demo_state =
     (\<lparr>code = 403, rbody = Error ''User is blocked.''\<rparr>, demo_state)"
proof -
  have m: "rmethod (demo_form Api_login None (Some ''bob@x.com'') pw) = POST" for pw
    by (simp add: demo_form_def)
  have p: "rurl (demo_form Api_login None (Some ''bob@x.com'') pw) = Api_login" for pw
    by (simp add: demo_form_def)
  have b: "bob \<in> set (users demo_state)" "status bob = ''blocked''"
    by (simp_all add: demo_state_def bob_def)
  have e: "body_email (demo_form Api_login None (Some ''bob@x.com'') pw) = Some (email bob)" for pw
    by (simp add: demo_form_def bob_def)
  show ?thesis
    using blocked_login [OF m p demo_distinct_emails b e, of "Some ''hunter2''" stub_libs demo_env]
      blocked_login [OF m p demo_distinct_emails b e, of "Some ''wrong''" stub_libs demo_env]
    by (simp add: falsy_def demo_form_def)
qed

lemma login_granted:
  assumes "distinct (map email (users st))" "u \<in> set (users st)" "status u \<noteq> ''blocked''"
    and "body_email req = Some (email u)" "email u \<noteq> []"
    and "body_password req = Some pw" "pw \<noteq> []"
    and "bcrypt_compare L pw (password u)"
  shows "login L ev req st =
           (\<lparr>code = 200,
             rbody = Message_token ''Login successful!''
                       (jwt_sign L \<lparr>pid = user_id u, pemail = email u\<rparr> (secret ev) ''1h'' (NOW ev))\<rparr>,
            st\<lparr>users := map (\<lambda>x. if user_id x = user_id u then x\<lparr>last_login := NOW ev\<rparr> else x)
                           (users st)\<rparr>)"
  using assms select_by_email_unique [OF assms(1,2)]
  by (simp add: login_def update_last_login_def)

lemma bearer_token_read:
  assumes "CHR '' '' \<notin> set tok" "authorization req = Some (''Bearer '' @ tok)"
  shows "authenticateToken L ev req =
           (case jwt_verify L tok (secret ev) (NOW ev) of
              None \<Rightarrow> Inl \<lparr>code = 403, rbody = Error ''Invalid token.''\<rparr>
            | Some u \<Rightarrow> Inr u)"
proof -
  have tw: "takeWhile (\<lambda>x. x \<noteq> CHR '' '') tok = tok"
    using assms(1) by (auto simp: takeWhile_eq_all_conv)
  have sw: "startsWith (''Bearer '' @ tok) ''Bearer ''" by (simp add: startsWith_def)
  show ?thesis using assms(2) sw by (simp add: authenticateToken_eq tw)
qed

lemma filter_first: "filter P xs = y # ys \<Longrightarrow> P y \<and> y \<in> set xs"
proof -
  assume a: "filter P xs = y # ys"
  have "y \<in> set (filter P xs)" unfolding a by simp
  then show ?thesis by simp
qed

lemma login_answers_200:
  assumes "code (fst (login L ev req st)) = 200"
  shows "\<exists>u pw. u \<in> set (users st) \<and> body_email req = Some (email u) \<and>
           body_password req = Some pw \<and> status u \<noteq> ''blocked'' \<and>
           bcrypt_compare L pw (password u) \<and>
           login L ev req st =
             (\<lparr>code = 200,
               rbody = Message_token ''Login successful!''
                         (jwt_sign L \<lparr>pid = user_id u, pemail = email u\<rparr> (secret ev) ''1h'' (NOW ev))\<rparr>,
              st\<lparr>users := map (\<lambda>x. if user_id x = user_id u then x\<lparr>last_login := NOW ev\<rparr> else x)
                             (users st)\<rparr>)"
proof -
  obtain e pw where f: "body_email req = Some e" "body_password req = Some pw" "e \<noteq> []" "pw \<noteq> []"
    using assms by (auto simp: login_def split: option.splits if_splits)
  obtain u rest where r: "filter (\<lambda>x. email x = e) (users st) = u # rest"
    using assms f by (auto simp: login_def select_by_email_def split: list.splits)
  have u: "email u = e" "u \<in> set (users st)" using filter_first [OF r] by simp_all
  have s: "status u \<noteq> ''blocked''" "bcrypt_compare L pw (password u)"
    using assms f r by (auto simp: login_def select_by_email_def split: if_splits)
  have "login L ev req st =
             (\<lparr>code = 200,
               rbody = Message_token ''Login successful!''
                         (jwt_sign L \<lparr>pid = user_id u, pemail = email u\<rparr> (secret ev) ''1h'' (NOW ev))\<rparr>,
              st\<lparr>users := map (\<lambda>x. if user_id x = user_id u then x\<lparr>last_login := NOW ev\<rparr> else x)
                             (users st)\<rparr>)"
    using f r s by (simp add: login_def select_by_email_def update_last_login_def)
  then show ?thesis using f u s by blast
qed

text \<open>
  Claim C7. A login is answered 200 only when a row has the email, its status is not
  \<open>blocked\<close> and the password matches the stored hash, and it is answered 200 whenever
  that holds (for the one row with that email, and non-empty fields). The server then
  signs a token whose payload is the id and the email of that row, with \<open>expiresIn\<close>
  one hour, sets \<open>last_login\<close> of that row to the current time and answers with the
  token. A later request that bears the token, which the library decodes to the payload
  that was signed, is authenticated as that user id.
\<close>

theorem login_success:
  assumes "rmethod req = POST" and "rurl req = Api_login"
  shows
    "(code (fst (app L ev req st)) = 200 \<longrightarrow>
        (\<exists>u pw. u \<in> set (users st) \<and> body_email req = Some (email u) \<and>
           body_password req = Some pw \<and> status u \<noteq> ''blocked'' \<and>
           bcrypt_compare L pw (password u) \<and>
           app L ev req st =
             (\<lparr>code = 200,
               rbody = Message_token ''Login successful!''
                         (jwt_sign L \<lparr>pid = user_id u, pemail = email u\<rparr> (secret ev) ''1h'' (NOW ev))\<rparr>,
              st\<lparr>users := map (\<lambda>x. if user_id x = user_id u then x\<lparr>last_login := NOW ev\<rparr> else x)
                             (users st)\<rparr>)))
   \<and> (distinct (map email (users st)) \<and> u \<in> set (users st) \<and> status u \<noteq> ''blocked'' \<and>
      body_email req = Some (email u) \<and> email u \<noteq> [] \<and>
      body_password req = Some pw \<and> pw \<noteq> [] \<and> bcrypt_compare L pw (password u)
      \<longrightarrow> app L ev req st =
            (\<lparr>code = 200,
              rbody = Message_token ''Login successful!''
                        (jwt_sign L \<lparr>pid = user_id u, pemail = email u\<rparr> (secret ev) ''1h'' (NOW ev))\<rparr>,
             st\<lparr>users := map (\<lambda>x. if user_id x = user_id u then x\<lparr>last_login := NOW ev\<rparr> else x)
                            (users st)\<rparr>))
   \<and> (CHR '' '' \<notin> set (jwt_sign L \<lparr>pid = user_id u, pemail = email u\<rparr> (secret ev) ''1h'' (NOW ev)) \<and>
      authorization req' =
        Some (''Bearer '' @ jwt_sign L \<lparr>pid = user_id u, pemail = email u\<rparr> (secret ev) ''1h'' (NOW ev)) \<and>
      jwt_verify L (jwt_sign L \<lparr>pid = user_id u, pemail = email u\<rparr> (secret ev) ''1h'' (NOW ev))
        (secret ev') (NOW ev') = Some \<lparr>pid = user_id u, pemail = email u\<rparr>
      \<longrightarrow> authenticateToken L ev' req' = Inr \<lparr>pid = user_id u, pemail = email u\<rparr>)"
proof -
  have a: "app L ev req st = login L ev req st" using assms by (simp add: app_def)
  have 1: "code (fst (app L ev req st)) = 200 \<longrightarrow>
        (\<exists>u pw. u \<in> set (users st) \<and> body_email req = Some (email u) \<and>
           body_password req = Some pw \<and> status u \<noteq> ''blocked'' \<and>
           bcrypt_compare L pw (password u) \<and>
           app L ev req st =
             (\<lparr>code = 200,
               rbody = Message_token ''Login successful!''
                         (jwt_sign L \<lparr>pid = user_id u, pemail = email u\<rparr> (secret ev) ''1h'' (NOW ev))\<rparr>,
              st\<lparr>users := map (\<lambda>x. if user_id x = user_id u then x\<lparr>last_login := NOW ev\<rparr> else x)
                             (users st)\<rparr>))"
    unfolding a using login_answers_200 [of L ev req st] by blast
  have 2: "app L ev req st =
            (\<lparr>code = 200,
              rbody = Message_token ''Login successful!''
                        (jwt_sign L \<lparr>pid = user_id u, pemail = email u\<rparr> (secret ev) ''1h'' (NOW ev))\<rparr>,
             st\<lparr>users := map (\<lambda>x. if user_id x = user_id u then x\<lparr>last_login := NOW ev\<rparr> else x)
                            (users st)\<rparr>)"
    if "distinct (map email (users st)) \<and> u \<in> set (users st) \<and> status u \<noteq> ''blocked'' \<and>
      body_email req = Some (email u) \<and> email u \<noteq> [] \<and>
      body_password req = Some pw \<and> pw \<noteq> [] \<and> bcrypt_compare L pw (password u)"
    unfolding a using that login_granted [of st u req pw L ev] by blast
  have 3: "authenticateToken L ev' req' = Inr \<lparr>pid = user_id u, pemail = email u\<rparr>"
    if "CHR '' '' \<notin> set (jwt_sign L \<lparr>pid = user_id u, pemail = email u\<rparr> (secret ev) ''1h'' (NOW ev)) \<and>
      authorization req' =
        Some (''Bearer '' @ jwt_sign L \<lparr>pid = user_id u, pemail = email u\<rparr> (secret ev) ''1h'' (NOW ev)) \<and>
      jwt_verify L (jwt_sign L \<lparr>pid = user_id u, pemail = email u\<rparr> (secret ev) ''1h'' (NOW ev))
        (secret ev') (NOW ev') = Some \<lparr>pid = user_id u, pemail = email u\<rparr>"
    using that
      bearer_token_read [of "jwt_sign L \<lparr>pid = user_id u, pemail = email u\<rparr> (secret ev) ''1h'' (NOW ev)"
        req' L ev']
    by simp
  show ?thesis using 1 2 3 by blast
qed

theorem login_success_witness:
  "app stub_libs demo_env (demo_form Api_login None (Some ''alice@x.com'') (Some ''pw123'')) demo_state =
     (\<lparr>code = 200, rbody = Message_token ''Login successful!'' ''tok1''\<rparr>,
      \<lparr>users = [alice\<lparr>last_login := 100\<rparr>, bob], next_id = 3, emitted = []\<rparr>)
   \<and> authenticateToken stub_libs demo_env (demo_request GET Api_users (Some ''Bearer tok1'')) =
       Inr \<lparr>pid = user_id alice, pemail = email alice\<rparr>"
proof -
  let ?req = "demo_form Api_login None (Some ''alice@x.com'') (Some ''pw123'')"
  let ?tok = "jwt_sign stub_libs \<lparr>pid = user_id alice, pemail = email alice\<rparr> (secret demo_env)
                ''1h'' (NOW demo_env)"
  have m: "rmethod ?req = POST" and p: "rurl ?req = Api_login"
    by (simp_all add: demo_form_def)
  have a: "distinct (map email (users demo_state)) \<and> alice \<in> set (users demo_state) \<and>
      status alice \<noteq> ''blocked'' \<and> body_email ?req = Some (email alice) \<and> email alice \<noteq> [] \<and>
      body_password ?req = Some ''pw123'' \<and> ''pw123'' \<noteq> [] \<and>
      bcrypt_compare stub_libs ''pw123'' (password alice)"
    using demo_distinct_emails by (simp add: demo_state_def alice_def demo_form_def stub_libs_def)
  have t: "?tok = ''tok1''" by (simp add: stub_libs_def alice_def)
  have b: "CHR '' '' \<notin> set ?tok \<and>
      authorization (demo_request GET Api_users (Some ''Bearer tok1'')) = Some (''Bearer '' @ ?tok) \<and>
      jwt_verify stub_libs ?tok (secret demo_env) (NOW demo_env) =
        Some \<lparr>pid = user_id alice, pemail = email alice\<rparr>"
    unfolding t by (simp add: demo_request_def stub_libs_def alice_def)
  have r: "app stub_libs demo_env ?req demo_state =
            (\<lparr>code = 200, rbody = Message_token ''Login successful!'' ?tok\<rparr>,
             demo_state\<lparr>users := map (\<lambda>x. if user_id x = user_id alice
                                           then x\<lparr>last_login := NOW demo_env\<rparr> else x)
                                   (users demo_state)\<rparr>)"
    using login_success [OF m p, where L = stub_libs and ev = demo_env and st = demo_state
        and u = alice and pw = "''pw123''"] a
    by blast
  have c: "code (fst (app stub_libs demo_env ?req demo_state)) = 200" using r by simp
  have "\<exists>u pw. u \<in> set (users demo_state) \<and> body_email ?req = Some (email u) \<and>
           body_password ?req = Some pw \<and> status u \<noteq> ''blocked''"
    using login_success [OF m p, where L = stub_libs and ev = demo_env and st = demo_state] c
    by blast
  have g: "authenticateToken stub_libs demo_env (demo_request GET Api_users (Some ''Bearer tok1'')) =
       Inr \<lparr>pid = user_id alice, pemail = email alice\<rparr>"
    using login_success [OF m p, where L = stub_libs and ev = demo_env and u = alice
        and ev' = demo_env and req' = "demo_request GET Api_users (Some ''Bearer tok1'')"] b
    by blast
  have "demo_state\<lparr>users := map (\<lambda>x. if user_id x = user_id alice
                                           then x\<lparr>last_login := NOW demo_env\<rparr> else x)
                                   (users demo_state)\<rparr> =
        \<lparr>users = [alice\<lparr>last_login := 100\<rparr>, bob], next_id = 3, emitted = []\<rparr>"
    by (simp add: demo_state_def alice_def bob_def demo_env_def)
  then show ?thesis using r g t by simp
qed

subsection \<open>Registration\<close>

lemma register_incomplete:
  assumes "falsy (body_name req) \<or> falsy (body_email req) \<or> falsy (body_password req)"
  shows "register L ev req st = (\<lparr>code = 400, rbody = Error ''All fields are required.''\<rparr>, st)"
  using assms by (auto simp: register_def falsy_def split: option.splits)

lemma register_complete:
  assumes "body_name req = Some n" "n \<noteq> []" "body_email req = Some e" "e \<noteq> []"
    and "body_password req = Some pw" "pw \<noteq> []"
  shows "register L ev req st =
           (case insert_user n e (bcrypt_hash L pw 10 (SALT ev)) (NOW ev) st of
              (Inr _, st') \<Rightarrow>
                (\<lparr>code = 201, rbody = Message ''User registered successfully!''\<rparr>, st')
            | (Inl err, st') \<Rightarrow>
                if error_code err = ''23505''
                then (\<lparr>code = 409, rbody = Error ''Email already exists.''\<rparr>, st')
                else (\<lparr>code = 500, rbody = Error ''Could not register user.''\<rparr>, st'))"
  using assms by (simp add: register_def)

lemma fields_complete:
  "\<not> falsy (body_name req) \<Longrightarrow> \<not> falsy (body_email req) \<Longrightarrow> \<not> falsy (body_password req) \<Longrightarrow>
   \<exists>n e pw. body_name req = Some n \<and> n \<noteq> [] \<and> body_email req = Some e \<and> e \<noteq> [] \<and>
            body_password req = Some pw \<and> pw \<noteq> []"
  by (auto simp: falsy_def split: option.splits)


lemma insert_user_cases:
  "insert_user n e h t st =
     (Inl (Pg_error ''22021''), st) \<and> \<not> (pg_text n \<and> pg_text e \<and> pg_text h)
   \<or> insert_user n e h t st = (Inl (Pg_error ''23505''), st\<lparr>next_id := Suc (next_id st)\<rparr>) \<and>
      (\<exists>x \<in> set (users st). email x = e)
   \<or> insert_user n e h t st =
        (Inr (),
         st\<lparr>users := users st @
               [\<lparr>user_id = next_id st, name = n, email = e, password = h,
                 status = ''active'', last_login = t\<rparr>],
            next_id := Suc (next_id st)\<rparr>) \<and>
      \<not> (\<exists>x \<in> set (users st). email x = e)"
  by (simp add: insert_user_def)


lemma insert_user_added:
  "fst (insert_user n e h t st) = Inr v \<Longrightarrow>
   insert_user n e h t st =
     (Inr (),
      st\<lparr>users := users st @
            [\<lparr>user_id = next_id st, name = n, email = e, password = h,
              status = ''active'', last_login = t\<rparr>],
         next_id := Suc (next_id st)\<rparr>)"
  using insert_user_cases [of n e h t st] by auto

lemma register_codes:
  assumes "body_name req = Some n" "n \<noteq> []" "body_email req = Some e" "e \<noteq> []"
    and "body_password req = Some pw" "pw \<noteq> []"
  shows "code (fst (register L ev req st)) = 409 \<longleftrightarrow>
           fst (insert_user n e (bcrypt_hash L pw 10 (SALT ev)) (NOW ev) st) = Inl (Pg_error ''23505'')"
    and "code (fst (register L ev req st)) = 201 \<longleftrightarrow>
           fst (insert_user n e (bcrypt_hash L pw 10 (SALT ev)) (NOW ev) st) = Inr ()"
    and "code (fst (register L ev req st)) \<noteq> 400"
    and "snd (register L ev req st) =
           snd (insert_user n e (bcrypt_hash L pw 10 (SALT ev)) (NOW ev) st)"
  using insert_user_cases [of n e "bcrypt_hash L pw 10 (SALT ev)" "NOW ev" st]
  unfolding register_complete [OF assms]
  by auto




lemma emitted_insert: "emitted (snd (insert_user n e h t st)) = emitted st"
  by (simp add: insert_user_def)

lemma emitted_register: "emitted (snd (register L ev req st)) = emitted st"
proof (cases "falsy (body_name req) \<or> falsy (body_email req) \<or> falsy (body_password req)")
  case True
  then show ?thesis using register_incomplete [OF True, of L ev st] by simp
next
  case False
  obtain n e pw where f: "body_name req = Some n" "n \<noteq> []" "body_email req = Some e"
    "e \<noteq> []" "body_password req = Some pw" "pw \<noteq> []"
    using False fields_complete [of req] by blast
  show ?thesis using register_codes(4) [OF f, of L ev st] emitted_insert by simp
qed

lemma emitted_login: "emitted (snd (login L ev req st)) = emitted st"
  by (auto simp: login_def select_by_email_def update_last_login_def
      split: option.splits list.splits)

lemma emitted_route:
  "emitted (snd (route L ev req st m p)) \<noteq> emitted st \<Longrightarrow>
   m = PUT \<and> (\<exists>i. p = Api_users_block i \<or> p = Api_users_unblock i)"
  by (induction L ev req st m p rule: route.induct)
    (auto simp: with_token_def get_users_def select_all_users_def emitted_register emitted_login
       split: sum.splits)

text \<open>
  Claim C8. A successful registration (201) adds exactly one row: the next id of the
  sequence, the name and email of the request, status \<open>active\<close>, \<open>last_login\<close> the
  current time, and as password the result of \<open>bcrypt.hash\<close> with cost factor 10, not
  the password itself. Nothing is handed to \<open>io.emit\<close>: a request that does broadcast
  is a block or an unblock.
\<close>

theorem registration_success:
  assumes "rmethod req = POST" and "rurl req = Api_register"
    and "code (fst (app L ev req st)) = 201"
  shows
    "(\<exists>n e pw. body_name req = Some n \<and> body_email req = Some e \<and> body_password req = Some pw \<and>
       app L ev req st =
         (\<lparr>code = 201, rbody = Message ''User registered successfully!''\<rparr>,
          st\<lparr>users := users st @
                [\<lparr>user_id = next_id st, name = n, email = e,
                  password = bcrypt_hash L pw 10 (SALT ev),
                  status = ''active'', last_login = NOW ev\<rparr>],
             next_id := Suc (next_id st)\<rparr>) \<and>
       length (users (snd (app L ev req st))) = Suc (length (users st)) \<and>
       emitted (snd (app L ev req st)) = emitted st)
   \<and> (emitted (snd (app L' ev' req' st')) \<noteq> emitted st' \<longrightarrow>
        rmethod req' = PUT \<and> (\<exists>i. rurl req' = Api_users_block i \<or> rurl req' = Api_users_unblock i))"
proof -
  have a: "app L ev req st = register L ev req st" using assms(1,2) by (simp add: app_def)
  have "\<not> (falsy (body_name req) \<or> falsy (body_email req) \<or> falsy (body_password req))"
    using register_incomplete [of req L ev st] a assms(3) by auto
  then obtain n e pw where f: "body_name req = Some n" "n \<noteq> []" "body_email req = Some e"
    "e \<noteq> []" "body_password req = Some pw" "pw \<noteq> []"
    using fields_complete [of req] by blast
  have "fst (insert_user n e (bcrypt_hash L pw 10 (SALT ev)) (NOW ev) st) = Inr ()"
    using register_codes(2) [OF f, of L ev st] a assms(3) by simp
  then have "insert_user n e (bcrypt_hash L pw 10 (SALT ev)) (NOW ev) st =
     (Inr (),
      st\<lparr>users := users st @
            [\<lparr>user_id = next_id st, name = n, email = e,
              password = bcrypt_hash L pw 10 (SALT ev),
              status = ''active'', last_login = NOW ev\<rparr>],
         next_id := Suc (next_id st)\<rparr>)"
    by (rule insert_user_added)
  then have 1: "\<exists>n e pw. body_name req = Some n \<and> body_email req = Some e \<and>
       body_password req = Some pw \<and>
       app L ev req st =
         (\<lparr>code = 201, rbody = Message ''User registered successfully!''\<rparr>,
          st\<lparr>users := users st @
                [\<lparr>user_id = next_id st, name = n, email = e,
                  password = bcrypt_hash L pw 10 (SALT ev),
                  status = ''active'', last_login = NOW ev\<rparr>],
             next_id := Suc (next_id st)\<rparr>) \<and>
       length (users (snd (app L ev req st))) = Suc (length (users st)) \<and>
       emitted (snd (app L ev req st)) = emitted st"
    using register_complete [OF f, of L ev st] a f by simp
  have 2: "emitted (snd (app L' ev' req' st')) \<noteq> emitted st' \<longrightarrow>
        rmethod req' = PUT \<and> (\<exists>i. rurl req' = Api_users_block i \<or> rurl req' = Api_users_unblock i)"
    using emitted_route [of L' ev' req' st' "rmethod req'" "rurl req'"] by (simp add: app_def)
  show ?thesis using 1 2 by blast
qed

theorem registration_success_witness:
  "app stub_libs demo_env
     (demo_form Api_register (Some ''Carol'') (Some ''carol@x.com'') (Some ''pw'')) demo_state =
     (\<lparr>code = 201, rbody = Message ''User registered successfully!''\<rparr>,
      \<lparr>users = [alice, bob,
                \<lparr>user_id = 3, name = ''Carol'', email = ''carol@x.com'', password = ''s#pw'',
                  status = ''active'', last_login = 100\<rparr>],
        next_id = 4, emitted = []\<rparr>)
   \<and> emitted (snd (app stub_libs demo_env
        (demo_request PUT (Api_users_block ''1'') (Some ''Bearer tok1'')) demo_state)) = [''usersUpdated'']
   \<and> rmethod (demo_request PUT (Api_users_block ''1'') (Some ''Bearer tok1'')) = PUT"
proof -
  let ?req = "demo_form Api_register (Some ''Carol'') (Some ''carol@x.com'') (Some ''pw'')"
  let ?blk = "demo_request PUT (Api_users_block ''1'') (Some ''Bearer tok1'')"
  have m: "rmethod ?req = POST" and p: "rurl ?req = Api_register"
    by (simp_all add: demo_form_def)
  have c: "code (fst (app stub_libs demo_env ?req demo_state)) = 201"
    by (simp add: app_def register_def insert_user_def pg_text_def demo_form_def demo_state_def
        alice_def bob_def stub_libs_def demo_env_def)
  have "app stub_libs demo_env ?blk demo_state = block_user stub_libs ''1'' demo_state"
    using demo_token1 [of PUT "Api_users_block ''1''"] demo_not_blocked1
    by (simp add: app_def with_token_not_blocked_def demo_request_def)
  then have e: "emitted (snd (app stub_libs demo_env ?blk demo_state)) = [''usersUpdated'']"
    by (simp add: block_user_def update_status_def demo_integers demo_state_def alice_def bob_def)
  then have d: "emitted (snd (app stub_libs demo_env ?blk demo_state)) \<noteq> emitted demo_state"
    by (simp add: demo_state_def)
  have r: "app stub_libs demo_env ?req demo_state =
     (\<lparr>code = 201, rbody = Message ''User registered successfully!''\<rparr>,
      \<lparr>users = [alice, bob,
                \<lparr>user_id = 3, name = ''Carol'', email = ''carol@x.com'', password = ''s#pw'',
                  status = ''active'', last_login = 100\<rparr>],
        next_id = 4, emitted = []\<rparr>)"
    using registration_success [OF m p c, THEN conjunct1]
    by (simp add: demo_form_def demo_state_def stub_libs_def demo_env_def)
  have "rmethod ?blk = PUT"
    using registration_success [OF m p c, THEN conjunct2, of stub_libs demo_env ?blk demo_state] d
    by blast
  then show ?thesis using r e by simp
qed

subsection \<open>Deleting a user\<close>

text \<open>
  Claim C5. The spec describes a delete operation behind the gate that removes the
  target row and broadcasts. The client sends \<open>DELETE /api/users/delete/:id\<close> (in its
  later version \<open>DELETE /api/users/:id\<close>), but server.js registers no route for the
  method \<open>DELETE\<close>: the request of an active caller with a token that verifies, for a
  row that exists, is answered by the 404 page of Express, the row stays in the table
  and nothing is broadcast.
\<close>

theorem delete_not_routed:
  "bob \<in> set (users demo_state) \<and>
   authenticateToken stub_libs demo_env (demo_request DELETE (Api_users_delete ''2'') (Some ''Bearer tok1'')) =
     Inr \<lparr>pid = 1, pemail = ''alice@x.com''\<rparr> \<and>
   checkIfBlocked demo_state \<lparr>pid = 1, pemail = ''alice@x.com''\<rparr> = Inr () \<and>
   app stub_libs demo_env (demo_request DELETE (Api_users_delete ''2'') (Some ''Bearer tok1'')) demo_state =
     (\<lparr>code = 404, rbody = Cannot_route\<rparr>, demo_state) \<and>
   app stub_libs demo_env (demo_request DELETE (Api_users_id ''2'') (Some ''Bearer tok1'')) demo_state =
     (\<lparr>code = 404, rbody = Cannot_route\<rparr>, demo_state)"
  using demo_token1 [of DELETE "Api_users_delete ''2''"] demo_not_blocked1
  by (simp add: app_def demo_request_def demo_state_def)

subsection \<open>Every request keeps the constraints of the table\<close>

text \<open>
  The results above that read one row by id or by email assume that ids, resp. emails,
  are unique. No request breaks that: unique ids and emails, and ids below the next
  value of the sequence, hold after a request when they held before it.
\<close>

lemma update_keeps_id:
  "map user_id (map (\<lambda>x. if P x then f x else x) xs) = map user_id xs"
  if "\<And>x. user_id (f x) = user_id x"
  using that by (induction xs) auto

lemma update_keeps_email:
  "map email (map (\<lambda>x. if P x then f x else x) xs) = map email xs"
  if "\<And>x. email (f x) = email x"
  using that by (induction xs) auto

lemma table_ok_update:
  assumes "table_ok st" "\<And>x. user_id (f x) = user_id x" "\<And>x. email (f x) = email x"
  shows "table_ok (st\<lparr>users := map (\<lambda>x. if P x then f x else x) (users st)\<rparr>)"
proof -
  let ?xs = "map (\<lambda>x. if P x then f x else x) (users st)"
  have i: "map user_id ?xs = map user_id (users st)" using assms(2) by (rule update_keeps_id)
  have e: "map email ?xs = map email (users st)" using assms(3) by (rule update_keeps_email)
  have "user_id ` set ?xs = user_id ` set (users st)"
    using i by (metis list.set_map)
  then have "\<forall>x \<in> set ?xs. user_id x < next_id st"
    using assms(1) unfolding table_ok_def by (metis (no_types, lifting) imageE imageI)
  then show ?thesis using assms(1) i e unfolding table_ok_def by (simp del: map_map)
qed

lemma table_ok_emitted: "table_ok (st\<lparr>emitted := es\<rparr>) = table_ok st"
  by (simp add: table_ok_def)

lemma table_ok_block_user: "table_ok st \<Longrightarrow> table_ok (snd (block_user L i st))"
  using table_ok_update [of st "\<lambda>x. x\<lparr>status := ''blocked''\<rparr>"]
  by (auto simp: block_user_def update_status_def table_ok_emitted split: sum.splits)

lemma table_ok_unblock_user: "table_ok st \<Longrightarrow> table_ok (snd (unblock_user L i st))"
  using table_ok_update [of st "\<lambda>x. x\<lparr>status := ''active''\<rparr>"]
  by (auto simp: unblock_user_def update_status_def table_ok_emitted split: sum.splits)

lemma table_ok_login: "table_ok st \<Longrightarrow> table_ok (snd (login L ev req st))"
  using table_ok_update [of st "\<lambda>x. x\<lparr>last_login := NOW ev\<rparr>"]
  by (auto simp: login_def select_by_email_def update_last_login_def
      split: option.splits list.splits)

lemma table_ok_insert:
  assumes "table_ok st"
  shows "table_ok (snd (insert_user n e h t st))"
proof -
  consider (refused) "insert_user n e h t st = (Inl (Pg_error ''22021''), st)"
    | (taken) "insert_user n e h t st = (Inl (Pg_error ''23505''), st\<lparr>next_id := Suc (next_id st)\<rparr>)"
    | (added) "insert_user n e h t st =
        (Inr (),
         st\<lparr>users := users st @
               [\<lparr>user_id = next_id st, name = n, email = e, password = h,
                 status = ''active'', last_login = t\<rparr>],
            next_id := Suc (next_id st)\<rparr>)" "\<not> (\<exists>x \<in> set (users st). email x = e)"
    using insert_user_cases [of n e h t st] by blast
  then show ?thesis
  proof cases
    case refused
    then show ?thesis using assms by simp
  next
    case taken
    then show ?thesis using assms by (auto simp: table_ok_def less_Suc_eq)
  next
    case added
    have "next_id st \<notin> user_id ` set (users st)"
      using assms unfolding table_ok_def by auto
    moreover have "e \<notin> email ` set (users st)" using added(2) by auto
    ultimately show ?thesis
      using assms added(1) unfolding table_ok_def by (auto simp: less_Suc_eq)
  qed
qed

lemma table_ok_register: "table_ok st \<Longrightarrow> table_ok (snd (register L ev req st))"
proof (cases "falsy (body_name req) \<or> falsy (body_email req) \<or> falsy (body_password req)")
  case True
  assume "table_ok st"
  then show ?thesis using register_incomplete [OF True, of L ev st] by simp
next
  case False
  assume t: "table_ok st"
  obtain n e pw where f: "body_name req = Some n" "n \<noteq> []" "body_email req = Some e"
    "e \<noteq> []" "body_password req = Some pw" "pw \<noteq> []"
    using False fields_complete [of req] by blast
  show ?thesis using register_codes(4) [OF f, of L ev st] table_ok_insert [OF t] by simp
qed

lemma table_ok_route: "table_ok st \<Longrightarrow> table_ok (snd (route L ev req st m p))"
  by (induction L ev req st m p rule: route.induct)
    (auto simp: with_token_def with_token_not_blocked_def get_users_def select_all_users_def
       table_ok_register table_ok_login table_ok_block_user table_ok_unblock_user
       split: sum.splits)

lemma table_ok_app: "table_ok st \<Longrightarrow> table_ok (snd (app L ev req st))"
  by (simp add: app_def table_ok_route)

lemma demo_table_ok: "table_ok demo_state"
  by (simp add: table_ok_def demo_state_def alice_def bob_def)

end
